theory Spec2Isabelle
  imports Complex_Main
begin

section \<open>Values of the hosted platform\<close>

text \<open>
  The scripts are orchestration over a hosted raster/vector engine.  A number of the
  engine is modelled as a \<^typ>\<open>real\<close> (its double arithmetic is idealised as exact),
  the engine's \<open>null\<close> as \<^const>\<open>None\<close>, and a failed computation as the left
  summand of a result, so that every place where evaluation can abort is a branch.
\<close>

datatype ee_error =
    ParameterRequired string
  | BandNotFound string
  | KeyNotFound

definition ee_bind :: "ee_error + 'a \<Rightarrow> ('a \<Rightarrow> ee_error + 'b) \<Rightarrow> ee_error + 'b" where
  "ee_bind m f = (case m of Inl e \<Rightarrow> Inl e | Inr x \<Rightarrow> f x)"

fun traverse :: "('a \<Rightarrow> ee_error + 'b) \<Rightarrow> 'a list \<Rightarrow> ee_error + 'b list" where
  "traverse f [] = Inr []"
| "traverse f (x # xs) =
     ee_bind (f x) (\<lambda>y. ee_bind (traverse f xs) (\<lambda>ys. Inr (y # ys)))"

subsection \<open>Numbers and conditionals\<close>

text \<open>
  \<open>ee.Number(x).divide(y)\<close>: the cast \<open>ee.Number\<close> adds no computation, and a null
  left operand is a missing required parameter.  Division by zero yields 0 on the
  platform, as it does in HOL.
\<close>

definition Number_divide :: "real option \<Rightarrow> real \<Rightarrow> ee_error + real" where
  "Number_divide left right =
     (case left of None \<Rightarrow> Inl (ParameterRequired ''left'') | Some x \<Rightarrow> Inr (x / right))"

definition Number_multiply :: "real option \<Rightarrow> real \<Rightarrow> ee_error + real" where
  "Number_multiply left right =
     (case left of None \<Rightarrow> Inl (ParameterRequired ''left'') | Some x \<Rightarrow> Inr (x * right))"

definition Number_ceil :: "real \<Rightarrow> real" where
  "Number_ceil x = of_int \<lceil>x\<rceil>"

definition IsEqual :: "real option \<Rightarrow> real option \<Rightarrow> bool" where
  "IsEqual left right = (left = right)"

text \<open>
  \<open>ee.Algorithms.If\<close> selects one of its two alternatives; a failure inside the
  alternative that is not selected does not surface.
\<close>

definition Algorithms_If :: "bool \<Rightarrow> ee_error + 'a \<Rightarrow> ee_error + 'a \<Rightarrow> ee_error + 'a" where
  "Algorithms_If condition trueCase falseCase = (if condition then trueCase else falseCase)"

subsection \<open>Dictionaries, features and filters\<close>

text \<open>
  Property names.  The run-time keys \<open>'height_' + year\<close> and \<open>'bgfa_' + year\<close> are the
  constructors \<open>Height_y year\<close> and \<open>Bgfa_y year\<close>; \<open>Height\<close> is the key \<open>'height'\<close>
  of the single-year script.
\<close>

datatype prop_name =
    Longitude
  | Latitude
  | Confidence
  | Area_m2
  | Height
  | Height_y int
  | Bgfa_y int
  | Inference_time_epoch_s

type_synonym 'k dict = "('k \<times> real option) list"

definition Dictionary_get :: "'k dict \<Rightarrow> 'k \<Rightarrow> ee_error + real option" where
  "Dictionary_get d k = (case map_of d k of None \<Rightarrow> Inl KeyNotFound | Some v \<Rightarrow> Inr v)"

text \<open>\<open>a.combine(b)\<close>: on a duplicate key the value of \<open>b\<close> wins.\<close>

definition Dictionary_combine :: "'k dict \<Rightarrow> 'k dict \<Rightarrow> 'k dict" where
  "Dictionary_combine a b = b @ a"

type_synonym point = "real \<times> real"

record 'g feature =
  geometry :: 'g
  properties :: "prop_name dict"

text \<open>\<open>feature.get(name)\<close> is null for a property that is absent or null.\<close>

definition Feature_get :: "('g, 'z) feature_scheme \<Rightarrow> prop_name \<Rightarrow> real option" where
  "Feature_get f k = (case map_of (properties f) k of None \<Rightarrow> None | Some v \<Rightarrow> v)"

datatype ee_filter =
    Filter_eq prop_name real
  | Filter_gte prop_name real
  | Filter_gt prop_name real
  | Filter_notNull "prop_name list"
  | Filter_or "ee_filter list"

fun matches :: "ee_filter \<Rightarrow> (prop_name \<Rightarrow> real option) \<Rightarrow> bool" where
  "matches (Filter_eq k v) get = (case get k of None \<Rightarrow> False | Some x \<Rightarrow> x = v)"
| "matches (Filter_gte k v) get = (case get k of None \<Rightarrow> False | Some x \<Rightarrow> x \<ge> v)"
| "matches (Filter_gt k v) get = (case get k of None \<Rightarrow> False | Some x \<Rightarrow> x > v)"
| "matches (Filter_notNull ks) get = list_all (\<lambda>k. get k \<noteq> None) ks"
| "matches (Filter_or fs) get = list_ex (\<lambda>f. matches f get) fs"

definition Collection_filter ::
  "ee_filter \<Rightarrow> ('g, 'z) feature_scheme list \<Rightarrow> ('g, 'z) feature_scheme list" where
  "Collection_filter flt fs = filter (\<lambda>f. matches flt (Feature_get f)) fs"

subsection \<open>Geometry\<close>

text \<open>
  The rectangle \<open>puneRegion\<close> is built from \<open>puneCoords\<close>.  Polygon geometry (centroid,
  area and intersection with the rectangle) and the pixel grid are computed by the
  platform and are parameters of the model: nothing below depends on how they are
  computed.  \<open>geo_pixel G scale p\<close> is the centre of the pixel that contains the point
  \<open>p\<close> on the grid of the given scale in metres.
\<close>

record region =
  minLon :: real
  minLat :: real
  maxLon :: real
  maxLat :: real

definition inside :: "region \<Rightarrow> point \<Rightarrow> bool" where
  "inside r p = (minLon r \<le> fst p \<and> fst p \<le> maxLon r \<and> minLat r \<le> snd p \<and> snd p \<le> maxLat r)"

record 'g geo_ops =
  geo_centroid :: "'g \<Rightarrow> point"
  geo_area :: "'g \<Rightarrow> real"
  geo_intersects :: "'g \<Rightarrow> region \<Rightarrow> bool"
  geo_pixel :: "real \<Rightarrow> point \<Rightarrow> point"

definition filterBounds ::
  "'g geo_ops \<Rightarrow> region \<Rightarrow> ('g, 'z) feature_scheme list \<Rightarrow> ('g, 'z) feature_scheme list" where
  "filterBounds G r fs = filter (\<lambda>f. geo_intersects G (geometry f) r) fs"

subsection \<open>Images\<close>

text \<open>
  A band maps a pixel, given by its centre, to the pixel's value, or to \<^const>\<open>None\<close>
  where the pixel is masked; an image is its list of named bands.  A scene of the source
  collection is an image with a footprint and properties.
\<close>

type_synonym pixel = point
type_synonym band = "pixel \<Rightarrow> real option"
type_synonym image = "(string \<times> band) list"

record 'g scene = "'g feature" +
  bands :: image

definition band_at :: "image \<Rightarrow> string \<Rightarrow> pixel \<Rightarrow> real option" where
  "band_at img name p = (case map_of img name of None \<Rightarrow> None | Some b \<Rightarrow> b p)"

text \<open>The topmost unmasked value: the last image of the collection wins.\<close>

fun last_valid :: "real option list \<Rightarrow> real option" where
  "last_valid [] = None"
| "last_valid (v # vs) = (case last_valid vs of None \<Rightarrow> v | Some w \<Rightarrow> Some w)"

text \<open>
  \<open>collection.mosaic()\<close>: the mosaic of an empty collection is an image without bands;
  otherwise it carries the bands of the first image, each pixel taken from the last
  image that is unmasked there.
\<close>

definition mosaic :: "image list \<Rightarrow> image" where
  "mosaic imgs =
     (case imgs of
        [] \<Rightarrow> []
      | first # _ \<Rightarrow>
          map (\<lambda>(name, _). (name, \<lambda>p. last_valid (map (\<lambda>img. band_at img name p) imgs))) first)"

text \<open>
  \<open>image.clip(region)\<close> masks whole pixels: a pixel stays valid when its centre is
  inside the region, so a point outside the region keeps a value where it falls in such
  a pixel.
\<close>

definition Image_clip :: "region \<Rightarrow> image \<Rightarrow> image" where
  "Image_clip r img = map (\<lambda>(name, b). (name, \<lambda>p. if inside r p then b p else None)) img"

text \<open>\<open>image.select(name)\<close> fails when no band of the image has that name.\<close>

definition Image_select :: "string \<Rightarrow> image \<Rightarrow> ee_error + image" where
  "Image_select name img =
     (case map_of img name of None \<Rightarrow> Inl (BandNotFound name) | Some b \<Rightarrow> Inr [(name, b)])"

text \<open>
  \<open>image.reduceRegion({reducer: ee.Reducer.first(), geometry: point, scale: scale})\<close>:
  one entry per band, holding the value of the pixel of that scale which contains the
  point (null where the pixel is masked).
\<close>

definition reduceRegion_first :: "'g geo_ops \<Rightarrow> image \<Rightarrow> point \<Rightarrow> real \<Rightarrow> string dict" where
  "reduceRegion_first G img pt scale = map (\<lambda>(name, b). (name, b (geo_pixel G scale pt))) img"

section \<open>Floor count and built-up gross floor area (geebuilding.js)\<close>

text \<open>The sub-expression \<open>ee.Number(height).divide(3).ceil()\<close> of \<open>calculateBGFA\<close>.\<close>

definition floors :: "real option \<Rightarrow> ee_error + real" where
  "floors height = ee_bind (Number_divide height 3) (\<lambda>q. Inr (Number_ceil q))"

definition calculateBGFA :: "real option \<Rightarrow> real \<Rightarrow> ee_error + real" where
  "calculateBGFA height area =
     Algorithms_If (IsEqual height None)
       (Inr area)
       (ee_bind (floors height) (\<lambda>n. Number_multiply (Some area) n))"

section \<open>Temporal image resolver\<close>

text \<open>
  \<open>ee.Date(year + '-06-30', 'America/Los_Angeles').millis()\<close>: midnight of June 30 in
  Pacific Daylight Time, seven hours behind UTC, in milliseconds since 1970-01-01 UTC.
\<close>

definition is_leap_year :: "int \<Rightarrow> bool" where
  "is_leap_year y =
     (if y mod 400 = 0 then True else if y mod 100 = 0 then False else y mod 4 = 0)"

definition days_before_year :: "int \<Rightarrow> int" where
  "days_before_year y =
     365 * (y - 1970) + ((y - 1) div 4 - 492) - ((y - 1) div 100 - 19) + ((y - 1) div 400 - 4)"

definition Date_millis :: "int \<Rightarrow> int" where
  "Date_millis year =
     ((days_before_year year + 180 + (if is_leap_year year then 1 else 0)) * 86400 + 7 * 3600)
       * 1000"

definition years :: "int list" where
  "years = [2016, 2017, 2018, 2019, 2020, 2021, 2022, 2023]"

definition getHeightImageForYear ::
  "'g geo_ops \<Rightarrow> 'g scene list \<Rightarrow> region \<Rightarrow> int \<Rightarrow> ee_error + image" where
  "getHeightImageForYear G temporal puneRegion year =
     (let epoch = real_of_int (Date_millis year) / 1000 in
      Image_select ''building_height''
        (Image_clip puneRegion
          (mosaic (map bands
            (filterBounds G puneRegion
              (Collection_filter (Filter_eq Inference_time_epoch_s epoch) temporal))))))"

text \<open>
  The dictionary \<open>heightImages\<close>, keyed by year (the script's key is the year's
  decimal string).  Its values are deferred: a year whose image cannot be built fails
  when the image is used.
\<close>

definition heightImages ::
  "'g geo_ops \<Rightarrow> 'g scene list \<Rightarrow> region \<Rightarrow> (int \<times> (ee_error + image)) list" where
  "heightImages G temporal puneRegion =
     zip years (map (\<lambda>year. getHeightImageForYear G temporal puneRegion year) years)"

definition heightImages_get :: "(int \<times> (ee_error + image)) list \<Rightarrow> int \<Rightarrow> ee_error + image" where
  "heightImages_get d year = (case map_of d year of None \<Rightarrow> Inl KeyNotFound | Some img \<Rightarrow> img)"

text \<open>
  The point sample
  \<open>heightImage.reduceRegion({reducer: first, geometry: centroid, scale: 10}).get('building_height')\<close>.
\<close>

definition sampleHeight :: "'g geo_ops \<Rightarrow> image \<Rightarrow> point \<Rightarrow> ee_error + real option" where
  "sampleHeight G heightImage centroid =
     Dictionary_get (reduceRegion_first G heightImage centroid 10) ''building_height''"

section \<open>Per-building metric derivation\<close>

subsection \<open>Heights, area and BGFA for all years (geebuilding.js)\<close>

definition getHeightsAndArea ::
  "'g geo_ops \<Rightarrow> 'g scene list \<Rightarrow> region \<Rightarrow> 'g feature \<Rightarrow> ee_error + point feature" where
  "getHeightsAndArea G temporal puneRegion f =
     (let centroid = geo_centroid G (geometry f);
          area = geo_area G (geometry f);
          yearData = traverse (\<lambda>year.
            ee_bind (heightImages_get (heightImages G temporal puneRegion) year) (\<lambda>heightImage.
            ee_bind (sampleHeight G heightImage centroid) (\<lambda>heightVal.
            ee_bind (calculateBGFA heightVal area) (\<lambda>bgfaVal.
              Inr [(Height_y year, heightVal), (Bgfa_y year, Some bgfaVal)])))) years
      in ee_bind yearData (\<lambda>yd.
           let dataDict = concat yd;
               baseProps = [(Longitude, Some (fst centroid)),
                            (Latitude, Some (snd centroid)),
                            (Confidence, Feature_get f Confidence),
                            (Area_m2, Some area)]
           in Inr \<lparr>geometry = centroid, properties = Dictionary_combine dataDict baseProps\<rparr>))"

definition filteredBuildings ::
  "'g geo_ops \<Rightarrow> 'g feature list \<Rightarrow> region \<Rightarrow> 'g feature list" where
  "filteredBuildings G buildings puneRegion =
     Collection_filter (Filter_gte Confidence 0.7) (filterBounds G puneRegion buildings)"

text \<open>\<open>collection.map(f)\<close> fails as a whole when \<open>f\<close> fails on one element.\<close>

definition processedBuildings ::
  "'g geo_ops \<Rightarrow> 'g feature list \<Rightarrow> 'g scene list \<Rightarrow> region \<Rightarrow> ee_error + point feature list" where
  "processedBuildings G buildings temporal puneRegion =
     traverse (getHeightsAndArea G temporal puneRegion) (filteredBuildings G buildings puneRegion)"

definition validationFilters :: "ee_filter list" where
  "validationFilters = map (\<lambda>year. Filter_notNull [Height_y year]) years"

definition validBuildings ::
  "'g geo_ops \<Rightarrow> 'g feature list \<Rightarrow> 'g scene list \<Rightarrow> region \<Rightarrow> ee_error + point feature list" where
  "validBuildings G buildings temporal puneRegion =
     ee_bind (processedBuildings G buildings temporal puneRegion) (\<lambda>processed.
       Inr (Collection_filter (Filter_or validationFilters) processed))"

subsection \<open>Heights for all years (small\_pune.js)\<close>

definition getHeightsForAllYears ::
  "'g geo_ops \<Rightarrow> 'g scene list \<Rightarrow> region \<Rightarrow> 'g feature \<Rightarrow> ee_error + point feature" where
  "getHeightsForAllYears G temporal puneRegion f =
     (let centroid = geo_centroid G (geometry f);
          yearHeights = traverse (\<lambda>year.
            ee_bind (heightImages_get (heightImages G temporal puneRegion) year) (\<lambda>heightImage.
            ee_bind (sampleHeight G heightImage centroid) (\<lambda>heightVal.
              Inr [(Height_y year, heightVal)]))) years
      in ee_bind yearHeights (\<lambda>yh.
           let heightsDict = concat yh;
               baseProps = [(Longitude, Some (fst centroid)),
                            (Latitude, Some (snd centroid)),
                            (Confidence, Feature_get f Confidence)]
           in Inr \<lparr>geometry = centroid, properties = Dictionary_combine heightsDict baseProps\<rparr>))"

definition processedBuildings_small ::
  "'g geo_ops \<Rightarrow> 'g feature list \<Rightarrow> 'g scene list \<Rightarrow> region \<Rightarrow> ee_error + point feature list" where
  "processedBuildings_small G buildings temporal puneRegion =
     traverse (getHeightsForAllYears G temporal puneRegion)
       (filteredBuildings G buildings puneRegion)"

definition validBuildings_small ::
  "'g geo_ops \<Rightarrow> 'g feature list \<Rightarrow> 'g scene list \<Rightarrow> region \<Rightarrow> ee_error + point feature list" where
  "validBuildings_small G buildings temporal puneRegion =
     ee_bind (processedBuildings_small G buildings temporal puneRegion) (\<lambda>processed.
       Inr (Collection_filter (Filter_or validationFilters) processed))"

subsection \<open>Centroid and 2023 height (first script of geebuilding.js)\<close>

text \<open>
  The script builds its \<open>heightImage\<close> for \<open>'2023-06-30'\<close> by the chain of
  \<open>getHeightImageForYear\<close>, over its own, larger region.
\<close>

definition simplifyBuilding ::
  "'g geo_ops \<Rightarrow> 'g scene list \<Rightarrow> region \<Rightarrow> 'g feature \<Rightarrow> ee_error + point feature" where
  "simplifyBuilding G temporal puneRegion f =
     (let centroid = geo_centroid G (geometry f) in
      ee_bind (getHeightImageForYear G temporal puneRegion 2023) (\<lambda>heightImage.
      ee_bind (sampleHeight G heightImage centroid) (\<lambda>heightVal.
        Inr \<lparr>geometry = centroid,
             properties = [(Longitude, Some (fst centroid)),
                           (Latitude, Some (snd centroid)),
                           (Height, heightVal),
                           (Confidence, Feature_get f Confidence)]\<rparr>)))"

definition processedBuildings_2023 ::
  "'g geo_ops \<Rightarrow> 'g feature list \<Rightarrow> 'g scene list \<Rightarrow> region \<Rightarrow> ee_error + point feature list" where
  "processedBuildings_2023 G buildings temporal puneRegion =
     traverse (simplifyBuilding G temporal puneRegion) (filteredBuildings G buildings puneRegion)"

definition validBuildings_2023 ::
  "'g geo_ops \<Rightarrow> 'g feature list \<Rightarrow> 'g scene list \<Rightarrow> region \<Rightarrow> ee_error + point feature list" where
  "validBuildings_2023 G buildings temporal puneRegion =
     ee_bind (processedBuildings_2023 G buildings temporal puneRegion) (\<lambda>processed.
       Inr (Collection_filter (Filter_notNull [Height]) processed))"

section \<open>Validity filter and yearly statistics\<close>

text \<open>
  \<open>collection.aggregate_stats(property)\<close> summarises the non-null values of the
  property; of the summary only the count, sum, mean, minimum and maximum are modelled.
\<close>

record ee_stats =
  valid_count :: nat
  values_sum :: real
  values_mean :: "real option"
  values_min :: "real option"
  values_max :: "real option"

definition aggregate_stats :: "prop_name \<Rightarrow> ('g, 'z) feature_scheme list \<Rightarrow> ee_stats" where
  "aggregate_stats property fs =
     (let vs = List.map_filter (\<lambda>f. Feature_get f property) fs in
      \<lparr>valid_count = length vs,
       values_sum = sum_list vs,
       values_mean = (if vs = [] then None else Some (sum_list vs / real (length vs))),
       values_min = (if vs = [] then None else Some (fold min vs (hd vs))),
       values_max = (if vs = [] then None else Some (fold max vs (hd vs)))\<rparr>)"

definition nonNullBuildings :: "int \<Rightarrow> point feature list \<Rightarrow> point feature list" where
  "nonNullBuildings year valid = Collection_filter (Filter_notNull [Height_y year]) valid"

text \<open>What the statistics loop of geebuilding.js prints for one year.\<close>

record year_report =
  report_year :: int
  buildings_with_height_data :: nat
  height_statistics :: ee_stats
  bgfa_statistics :: ee_stats

definition yearReport :: "point feature list \<Rightarrow> int \<Rightarrow> year_report" where
  "yearReport valid year =
     (let heightProp = Height_y year;
          bgfaProp = Bgfa_y year;
          nonNull = nonNullBuildings year valid
      in \<lparr>report_year = year,
          buildings_with_height_data = length nonNull,
          height_statistics = aggregate_stats heightProp nonNull,
          bgfa_statistics = aggregate_stats bgfaProp nonNull\<rparr>)"

text \<open>What the statistics loop of small\_pune.js prints for one year.\<close>

record year_report_small =
  report_year_small :: int
  buildings_with_height_data_small :: nat
  height_statistics_small :: ee_stats

definition yearReport_small :: "point feature list \<Rightarrow> int \<Rightarrow> year_report_small" where
  "yearReport_small valid year =
     (let propName = Height_y year;
          nonNull = nonNullBuildings year valid
      in \<lparr>report_year_small = year,
          buildings_with_height_data_small = length nonNull,
          height_statistics_small = aggregate_stats propName nonNull\<rparr>)"

text \<open>
  The request handed to \<open>ui.Chart.feature.histogram\<close>; the bucketing itself is done by
  the presentation layer.
\<close>

record histogram_request =
  hist_features :: "point feature list"
  hist_property :: prop_name
  maxBuckets :: nat
  minBucketWidth :: real

definition bgfaChart :: "point feature list \<Rightarrow> int \<Rightarrow> histogram_request" where
  "bgfaChart valid year =
     \<lparr>hist_features = Collection_filter (Filter_notNull [Bgfa_y year]) valid,
      hist_property = Bgfa_y year,
      maxBuckets = 20,
      minBucketWidth = 10\<rparr>"

definition histogramData :: "point feature list \<Rightarrow> int \<Rightarrow> histogram_request" where
  "histogramData valid year =
     \<lparr>hist_features = Collection_filter (Filter_notNull [Height_y year]) valid,
      hist_property = Height_y year,
      maxBuckets = 30,
      minBucketWidth = 1\<rparr>"

section \<open>Interactive area analysis (building\_heights\_latest\_4\_feb.js)\<close>

definition YEARS :: "int list" where
  "YEARS = [2016..2023]"

definition FLOOR_HEIGHT :: real where
  "FLOOR_HEIGHT = 3"

text \<open>Declared by the script and used nowhere in it.\<close>

definition HEIGHT_MULTIPLIER :: real where
  "HEIGHT_MULTIPLIER = 1"

definition annualMosaics :: "'g scene list \<Rightarrow> (int \<times> image) list" where
  "annualMosaics imageCollection =
     map (\<lambda>year.
       let epoch_s = real_of_int (Date_millis year) / 1000 in
       (year, mosaic (map bands
          (Collection_filter (Filter_eq Inference_time_epoch_s epoch_s) imageCollection))))
       YEARS"

text \<open>\<open>image.gt(c)\<close>: 1 where the pixel exceeds \<open>c\<close>, 0 elsewhere, masked where masked.\<close>

definition Image_gt :: "image \<Rightarrow> real \<Rightarrow> image" where
  "Image_gt img c =
     map (\<lambda>(name, b). (name, \<lambda>p. map_option (\<lambda>v. if v > c then 1 else 0) (b p))) img"

text \<open>
  \<open>image.updateMask(mask)\<close>: a pixel stays valid only where the first band of the mask
  is valid and non-zero.
\<close>

definition updateMask :: "image \<Rightarrow> image \<Rightarrow> image" where
  "updateMask img maskImage =
     map (\<lambda>(name, b). (name, \<lambda>p.
       (case maskImage of
          [] \<Rightarrow> b p
        | (_, m) # _ \<Rightarrow> (case m p of None \<Rightarrow> None | Some w \<Rightarrow> if w = 0 then None else b p))))
       img"

definition Image_select_list :: "string list \<Rightarrow> image \<Rightarrow> ee_error + image" where
  "Image_select_list names img =
     traverse (\<lambda>name.
       case map_of img name of None \<Rightarrow> Inl (BandNotFound name) | Some b \<Rightarrow> Inr (name, b)) names"

text \<open>
  \<open>image.reduceRegion({reducer: ee.Reducer.mean(), geometry: aoi, scale: scale, ...})\<close>:
  per band the mean of the valid pixels of the area, null when there is none.  The area
  of interest is given by its pixels at the map scale, equally weighted.
\<close>

definition reduceRegion_mean :: "image \<Rightarrow> point list \<Rightarrow> string dict" where
  "reduceRegion_mean img aoi =
     map (\<lambda>(name, b).
       let vs = List.map_filter b aoi in
       (name, if vs = [] then None else Some (sum_list vs / real (length vs)))) img"

record year_counts =
  count_year :: int
  count :: real
  avgHeight :: real
  avgFloors :: real
  presence :: "real option"

definition analyzeMosaic :: "real \<Rightarrow> point list \<Rightarrow> int \<times> image \<Rightarrow> ee_error + year_counts" where
  "analyzeMosaic scale aoi ym =
     (let year = fst ym; mosaicImage = snd ym in
      ee_bind (Image_select ''building_presence'' mosaicImage) (\<lambda>presenceImage.
      let buildingMask = Image_gt presenceImage 0.2;
          maskedImage = updateMask mosaicImage buildingMask
      in
      ee_bind (Image_select_list
                 [''building_fractional_count'', ''building_height'', ''building_presence'']
                 maskedImage) (\<lambda>selected.
      let stats = reduceRegion_mean selected aoi in
      ee_bind (Dictionary_get stats ''building_fractional_count'') (\<lambda>fractional.
      ee_bind (Number_multiply fractional ((2 * scale) ^ 2)) (\<lambda>totalCount.
      ee_bind (Dictionary_get stats ''building_height'') (\<lambda>meanHeight.
      ee_bind (Number_multiply meanHeight 10) (\<lambda>avgHeight.
      ee_bind (Number_divide (Some avgHeight) FLOOR_HEIGHT) (\<lambda>avgFloors.
      ee_bind (Dictionary_get stats ''building_presence'') (\<lambda>presenceMean.
        Inr \<lparr>count_year = year,
             count = totalCount,
             avgHeight = avgHeight,
             avgFloors = avgFloors,
             presence = presenceMean\<rparr>)))))))))"

definition analyzeBuildings ::
  "'g scene list \<Rightarrow> real \<Rightarrow> point list \<Rightarrow> ee_error + year_counts list" where
  "analyzeBuildings imageCollection scale aoi =
     traverse (analyzeMosaic scale aoi) (annualMosaics imageCollection)"

section \<open>Concrete inputs\<close>

text \<open>The region of geebuilding.js (second script) and small\_pune.js.\<close>

definition puneRegion :: region where
  "puneRegion = \<lparr>minLon = 73.85, minLat = 18.52, maxLon = 73.86, maxLat = 18.53\<rparr>"

text \<open>
  A geometry engine for evaluating the scripts on concrete inputs: a geometry is given by
  its centroid, its area and its bounding box, and two geometries intersect when their
  boxes overlap.  Its pixels of scale \<open>s\<close> are squares of \<open>s / 100000\<close> degrees
  centred on the multiples of that size.
\<close>

type_synonym box_geometry = "point \<times> real \<times> region"

definition boxes_overlap :: "region \<Rightarrow> region \<Rightarrow> bool" where
  "boxes_overlap a b =
     (minLon a \<le> maxLon b \<and> minLon b \<le> maxLon a \<and> minLat a \<le> maxLat b \<and> minLat b \<le> maxLat a)"

definition snap :: "real \<Rightarrow> real \<Rightarrow> real" where
  "snap scale x = of_int \<lfloor>x * 100000 / scale + 1 / 2\<rfloor> * scale / 100000"

definition box_geo :: "box_geometry geo_ops" where
  "box_geo =
     \<lparr>geo_centroid = (\<lambda>g. fst g),
      geo_area = (\<lambda>g. fst (snd g)),
      geo_intersects = (\<lambda>g r. boxes_overlap (snd (snd g)) r),
      geo_pixel = (\<lambda>scale p. (snap scale (fst p), snap scale (snd p)))\<rparr>"

text \<open>A point inside the region and a point just east of it.\<close>

definition example_centroid :: point where
  "example_centroid = (73.855, 18.525)"

definition example_centroid_edge :: point where
  "example_centroid_edge = (73.8601, 18.525)"

text \<open>
  One scene per year over the whole region.  The height band is masked everywhere in
  2016 to 2022 and is 9 metres in 2023.
\<close>

definition example_scene :: "real \<Rightarrow> real option \<Rightarrow> box_geometry scene" where
  "example_scene epoch h =
     \<lparr>geometry = (example_centroid, 1, puneRegion),
      properties = [(Inference_time_epoch_s, Some epoch)],
      bands = [(''building_presence'', \<lambda>p. Some 1),
               (''building_fractional_count'', \<lambda>p. Some (1 / 100)),
               (''building_height'', \<lambda>p. h)]\<rparr>"

definition example_temporal :: "box_geometry scene list" where
  "example_temporal =
     [example_scene 1467270000 None, example_scene 1498806000 None,
      example_scene 1530342000 None, example_scene 1561878000 None,
      example_scene 1593500400 None, example_scene 1625036400 None,
      example_scene 1656572400 None, example_scene 1688108400 (Some 9)]"

text \<open>The same collection without the scene of 2016.\<close>

definition example_temporal_gap :: "box_geometry scene list" where
  "example_temporal_gap =
     [example_scene 1498806000 None,
      example_scene 1530342000 None, example_scene 1561878000 None,
      example_scene 1593500400 None, example_scene 1625036400 None,
      example_scene 1656572400 None, example_scene 1688108400 (Some 9)]"

text \<open>
  A building of 30 square metres inside the region with confidence 0.9, the same
  footprint with confidence 0.5, and a building that straddles the eastern edge of the
  region with its centroid outside.
\<close>

definition example_building :: "box_geometry feature" where
  "example_building =
     \<lparr>geometry = (example_centroid, 30,
                   \<lparr>minLon = 73.8549, minLat = 18.5249, maxLon = 73.8551, maxLat = 18.5251\<rparr>),
      properties = [(Confidence, Some 0.9)]\<rparr>"

definition example_building_low :: "box_geometry feature" where
  "example_building_low = example_building\<lparr>properties := [(Confidence, Some 0.5)]\<rparr>"

definition example_building_edge :: "box_geometry feature" where
  "example_building_edge =
     \<lparr>geometry = (example_centroid_edge, 40,
                   \<lparr>minLon = 73.8599, minLat = 18.5249, maxLon = 73.8603, maxLat = 18.5251\<rparr>),
      properties = [(Confidence, Some 0.8)]\<rparr>"

text \<open>The record derived from \<open>example_building\<close> over \<open>example_temporal\<close>.\<close>

definition example_record :: "point feature" where
  "example_record =
     \<lparr>geometry = (73.855, 18.525),
      properties =
        [(Longitude, Some 73.855), (Latitude, Some 18.525), (Confidence, Some 0.9),
         (Area_m2, Some 30),
         (Height_y 2016, None), (Bgfa_y 2016, Some 30),
         (Height_y 2017, None), (Bgfa_y 2017, Some 30),
         (Height_y 2018, None), (Bgfa_y 2018, Some 30),
         (Height_y 2019, None), (Bgfa_y 2019, Some 30),
         (Height_y 2020, None), (Bgfa_y 2020, Some 30),
         (Height_y 2021, None), (Bgfa_y 2021, Some 30),
         (Height_y 2022, None), (Bgfa_y 2022, Some 30),
         (Height_y 2023, Some 9), (Bgfa_y 2023, Some 90)]\<rparr>"

text \<open>The record derived from \<open>example_building_edge\<close>.\<close>

definition example_record_edge :: "point feature" where
  "example_record_edge =
     \<lparr>geometry = (73.8601, 18.525),
      properties =
        [(Longitude, Some 73.8601), (Latitude, Some 18.525), (Confidence, Some 0.8),
         (Area_m2, Some 40),
         (Height_y 2016, None), (Bgfa_y 2016, Some 40),
         (Height_y 2017, None), (Bgfa_y 2017, Some 40),
         (Height_y 2018, None), (Bgfa_y 2018, Some 40),
         (Height_y 2019, None), (Bgfa_y 2019, Some 40),
         (Height_y 2020, None), (Bgfa_y 2020, Some 40),
         (Height_y 2021, None), (Bgfa_y 2021, Some 40),
         (Height_y 2022, None), (Bgfa_y 2022, Some 40),
         (Height_y 2023, None), (Bgfa_y 2023, Some 40)]\<rparr>"

text \<open>
  The records derived from \<open>example_building\<close> by small\_pune.js and by the first
  script of geebuilding.js, the input collection, and the height image of a year whose
  scene has the constant height \<open>h\<close>.
\<close>

definition example_record_small :: "point feature" where
  "example_record_small =
     \<lparr>geometry = (73.855, 18.525),
      properties =
        [(Longitude, Some 73.855), (Latitude, Some 18.525), (Confidence, Some 0.9),
         (Height_y 2016, None), (Height_y 2017, None), (Height_y 2018, None),
         (Height_y 2019, None), (Height_y 2020, None), (Height_y 2021, None),
         (Height_y 2022, None), (Height_y 2023, Some 9)]\<rparr>"

definition example_record_2023 :: "point feature" where
  "example_record_2023 =
     \<lparr>geometry = (73.855, 18.525),
      properties =
        [(Longitude, Some 73.855), (Latitude, Some 18.525), (Height, Some 9),
         (Confidence, Some 0.9)]\<rparr>"

definition example_buildings :: "box_geometry feature list" where
  "example_buildings = [example_building, example_building_low]"

definition example_image :: "real option \<Rightarrow> image" where
  "example_image h = [(''building_height'', \<lambda>p. if inside puneRegion p then h else None)]"

text \<open>
  A building on the eastern edge whose centroid lies just outside the region, in a pixel
  whose centre is on the edge, and the record derived from it.
\<close>

definition example_centroid_boundary :: point where
  "example_centroid_boundary = (73.86004, 18.525)"

definition example_building_boundary :: "box_geometry feature" where
  "example_building_boundary =
     \<lparr>geometry = (example_centroid_boundary, 40,
                   \<lparr>minLon = 73.8599, minLat = 18.5249, maxLon = 73.8602, maxLat = 18.5251\<rparr>),
      properties = [(Confidence, Some 0.8)]\<rparr>"

definition example_record_boundary :: "point feature" where
  "example_record_boundary =
     \<lparr>geometry = (73.86004, 18.525),
      properties =
        [(Longitude, Some 73.86004), (Latitude, Some 18.525), (Confidence, Some 0.8),
         (Area_m2, Some 40),
         (Height_y 2016, None), (Bgfa_y 2016, Some 40),
         (Height_y 2017, None), (Bgfa_y 2017, Some 40),
         (Height_y 2018, None), (Bgfa_y 2018, Some 40),
         (Height_y 2019, None), (Bgfa_y 2019, Some 40),
         (Height_y 2020, None), (Bgfa_y 2020, Some 40),
         (Height_y 2021, None), (Bgfa_y 2021, Some 40),
         (Height_y 2022, None), (Bgfa_y 2022, Some 40),
         (Height_y 2023, Some 9), (Bgfa_y 2023, Some 120)]\<rparr>"

text \<open>
  A collection with a height in every year for the area analysis, and a mosaic of three
  pixels with building presence 0.2, 0.5 and 0.1 and heights 100, 6 and 50.
\<close>

definition example_temporal_built :: "box_geometry scene list" where
  "example_temporal_built =
     [example_scene 1467270000 (Some 3), example_scene 1498806000 (Some 3),
      example_scene 1530342000 (Some 3), example_scene 1561878000 (Some 3),
      example_scene 1593500400 (Some 3), example_scene 1625036400 (Some 3),
      example_scene 1656572400 (Some 3), example_scene 1688108400 (Some 9)]"

definition example_pixel_a :: pixel where
  "example_pixel_a = (73.855, 18.525)"

definition example_pixel_b :: pixel where
  "example_pixel_b = (73.8551, 18.525)"

definition example_pixel_c :: pixel where
  "example_pixel_c = (73.8552, 18.525)"

definition example_presence3 :: band where
  "example_presence3 p =
     (if p = example_pixel_a then Some 0.2 else if p = example_pixel_b then Some 0.5
      else Some 0.1)"

definition example_height3 :: band where
  "example_height3 p =
     (if p = example_pixel_a then Some 100 else if p = example_pixel_b then Some 6
      else Some 50)"

definition example_mosaic3 :: image where
  "example_mosaic3 =
     [(''building_presence'', example_presence3),
      (''building_fractional_count'', \<lambda>p. Some (1 / 100)),
      (''building_height'', example_height3)]"

section \<open>Auxiliary facts\<close>

lemma ee_bind_Inr_iff: "ee_bind m f = Inr y \<longleftrightarrow> (\<exists>x. m = Inr x \<and> f x = Inr y)"
  by (cases m) (simp_all add: ee_bind_def)

lemma traverse_Inr_iff: "traverse f xs = Inr ys \<longleftrightarrow> list_all2 (\<lambda>x y. f x = Inr y) xs ys"
proof (induction xs arbitrary: ys)
  case Nil
  then show ?case by auto
next
  case (Cons x xs)
  show ?case
    by (cases ys) (auto simp: ee_bind_Inr_iff Cons.IH)
qed

lemma traverse_total:
  assumes "\<And>x. x \<in> set xs \<Longrightarrow> \<exists>y. f x = Inr y"
  shows "\<exists>ys. traverse f xs = Inr ys"
  using assms
proof (induction xs)
  case Nil
  then show ?case by simp
next
  case (Cons x xs)
  then obtain y ys where "f x = Inr y" "traverse f xs = Inr ys"
    by (meson list.set_intros)
  then show ?case by (simp add: ee_bind_def)
qed

lemma floors_Some: "floors (Some h) = Inr (of_int \<lceil>h / 3\<rceil>)"
  by (simp add: floors_def Number_divide_def Number_ceil_def ee_bind_def)

lemma calculateBGFA_Some: "calculateBGFA (Some h) a = Inr (a * of_int \<lceil>h / 3\<rceil>)"
  by (simp add: calculateBGFA_def floors_Some Algorithms_If_def IsEqual_def ee_bind_def
      Number_multiply_def)

lemma calculateBGFA_None: "calculateBGFA None a = Inr a"
  by (simp add: calculateBGFA_def Algorithms_If_def IsEqual_def)

lemma heightImages_get_year:
  "year \<in> set years \<Longrightarrow>
   heightImages_get (heightImages G t r) year = getHeightImageForYear G t r year"
  by (simp add: heightImages_get_def heightImages_def map_of_zip_map)

lemma year_entries_lookup:
  assumes "list_all2 (\<lambda>year e. \<exists>h b. e = [(Height_y year, h), (Bgfa_y year, b)] \<and> P year h b) ys yd"
    and "y \<in> set ys"
  shows "\<exists>h b. map_of (concat yd) (Height_y y) = Some h
           \<and> map_of (concat yd) (Bgfa_y y) = Some b \<and> P y h b"
  using assms
proof (induction ys yd rule: list_all2_induct)
  case Nil
  then show ?case by simp
next
  case (Cons x xs e es)
  then obtain h b where e: "e = [(Height_y x, h), (Bgfa_y x, b)]" and p: "P x h b"
    by blast
  show ?case
  proof (cases "x = y")
    case True
    with e p show ?thesis by auto
  next
    case False
    with Cons have "y \<in> set xs" by simp
    with Cons.IH obtain h' b' where
      "map_of (concat es) (Height_y y) = Some h'" "map_of (concat es) (Bgfa_y y) = Some b'" "P y h' b'"
      by blast
    with False e show ?thesis by auto
  qed
qed

lemma clip_band:
  "map_of (Image_clip r img) name = Some b \<Longrightarrow>
   \<exists>b'. map_of img name = Some b' \<and> b = (\<lambda>p. if inside r p then b' p else None)"
  by (induction img) (auto simp: Image_clip_def split: if_splits)

lemma getHeightImageForYear_Inr:
  assumes "getHeightImageForYear G t r year = Inr img"
  shows "\<exists>b. img = [(''building_height'', b)] \<and> (\<forall>p. b p \<noteq> None \<longrightarrow> inside r p)"
proof -
  let ?m = "mosaic (map bands (filterBounds G r (Collection_filter
              (Filter_eq Inference_time_epoch_s (real_of_int (Date_millis year) / 1000)) t)))"
  from assms have sel: "Image_select ''building_height'' (Image_clip r ?m) = Inr img"
    by (simp add: getHeightImageForYear_def)
  then obtain b where b: "map_of (Image_clip r ?m) ''building_height'' = Some b"
    and img: "img = [(''building_height'', b)]"
    by (auto simp: Image_select_def split: option.splits)
  from clip_band [OF b] obtain b' where "b = (\<lambda>p. if inside r p then b' p else None)"
    by blast
  then have "\<forall>p. b p \<noteq> None \<longrightarrow> inside r p" by simp
  with img show ?thesis by blast
qed

lemma sampleHeight_single:
  "sampleHeight G [(''building_height'', b)] p = Inr (b (geo_pixel G 10 p))"
  by (simp add: sampleHeight_def reduceRegion_first_def Dictionary_get_def)


lemma getHeightsAndArea_Inr:
  assumes "getHeightsAndArea G t r f = Inr rec"
  shows "\<exists>yd. rec = \<lparr>geometry = geo_centroid G (geometry f),
                     properties = [(Longitude, Some (fst (geo_centroid G (geometry f)))),
                                   (Latitude, Some (snd (geo_centroid G (geometry f)))),
                                   (Confidence, Feature_get f Confidence),
                                   (Area_m2, Some (geo_area G (geometry f)))] @ concat yd\<rparr>
           \<and> list_all2 (\<lambda>year e. \<exists>h b. e = [(Height_y year, h), (Bgfa_y year, b)]
                 \<and> (\<exists>img bg. heightImages_get (heightImages G t r) year = Inr img
                      \<and> sampleHeight G img (geo_centroid G (geometry f)) = Inr h
                      \<and> calculateBGFA h (geo_area G (geometry f)) = Inr bg \<and> b = Some bg))
               years yd"
proof -
  from assms obtain yd where
    yd: "list_all2 (\<lambda>year e.
           ee_bind (heightImages_get (heightImages G t r) year) (\<lambda>heightImage.
           ee_bind (sampleHeight G heightImage (geo_centroid G (geometry f))) (\<lambda>heightVal.
           ee_bind (calculateBGFA heightVal (geo_area G (geometry f))) (\<lambda>bgfaVal.
             Inr [(Height_y year, heightVal), (Bgfa_y year, Some bgfaVal)]))) = Inr e) years yd"
    and rec: "rec = \<lparr>geometry = geo_centroid G (geometry f),
                     properties = [(Longitude, Some (fst (geo_centroid G (geometry f)))),
                                   (Latitude, Some (snd (geo_centroid G (geometry f)))),
                                   (Confidence, Feature_get f Confidence),
                                   (Area_m2, Some (geo_area G (geometry f)))] @ concat yd\<rparr>"
    by (auto simp: getHeightsAndArea_def Let_def ee_bind_Inr_iff traverse_Inr_iff
        Dictionary_combine_def)
  from yd have "list_all2 (\<lambda>year e. \<exists>h b. e = [(Height_y year, h), (Bgfa_y year, b)]
                 \<and> (\<exists>img bg. heightImages_get (heightImages G t r) year = Inr img
                      \<and> sampleHeight G img (geo_centroid G (geometry f)) = Inr h
                      \<and> calculateBGFA h (geo_area G (geometry f)) = Inr bg \<and> b = Some bg))
               years yd"
    by (rule list_all2_mono) (auto simp: ee_bind_Inr_iff)
  with rec show ?thesis by blast
qed

lemma getHeightsAndArea_base:
  assumes "getHeightsAndArea G t r f = Inr rec"
  shows "geometry rec = geo_centroid G (geometry f)"
    and "Feature_get rec Longitude = Some (fst (geo_centroid G (geometry f)))"
    and "Feature_get rec Latitude = Some (snd (geo_centroid G (geometry f)))"
    and "Feature_get rec Confidence = Feature_get f Confidence"
    and "Feature_get rec Area_m2 = Some (geo_area G (geometry f))"
  using getHeightsAndArea_Inr [OF assms] by (auto simp: Feature_get_def)

lemma getHeightsAndArea_year:
  assumes "getHeightsAndArea G t r f = Inr rec" and "year \<in> set years"
  shows "\<exists>img bg. getHeightImageForYear G t r year = Inr img
           \<and> sampleHeight G img (geo_centroid G (geometry f)) = Inr (Feature_get rec (Height_y year))
           \<and> calculateBGFA (Feature_get rec (Height_y year)) (geo_area G (geometry f)) = Inr bg
           \<and> Feature_get rec (Bgfa_y year) = Some bg"
proof -
  from getHeightsAndArea_Inr [OF assms(1)] obtain yd where
    rec: "properties rec = [(Longitude, Some (fst (geo_centroid G (geometry f)))),
                                   (Latitude, Some (snd (geo_centroid G (geometry f)))),
                                   (Confidence, Feature_get f Confidence),
                                   (Area_m2, Some (geo_area G (geometry f)))] @ concat yd"
    and yd: "list_all2 (\<lambda>year e. \<exists>h b. e = [(Height_y year, h), (Bgfa_y year, b)]
                 \<and> (\<exists>img bg. heightImages_get (heightImages G t r) year = Inr img
                      \<and> sampleHeight G img (geo_centroid G (geometry f)) = Inr h
                      \<and> calculateBGFA h (geo_area G (geometry f)) = Inr bg \<and> b = Some bg))
               years yd"
    by auto
  from year_entries_lookup [OF yd assms(2)] obtain h img bg where
    "map_of (concat yd) (Height_y year) = Some h"
    "map_of (concat yd) (Bgfa_y year) = Some (Some bg)"
    "heightImages_get (heightImages G t r) year = Inr img"
    "sampleHeight G img (geo_centroid G (geometry f)) = Inr h"
    "calculateBGFA h (geo_area G (geometry f)) = Inr bg"
    by blast
  then show ?thesis
    using assms(2) rec by (auto simp: Feature_get_def heightImages_get_year)
qed

lemma matches_validationFilters:
  "matches (Filter_or validationFilters) get = (\<exists>year\<in>set years. get (Height_y year) \<noteq> None)"
  by (simp add: validationFilters_def list_ex_iff)

lemma validBuildings_filter:
  "processedBuildings G bs t r = Inr processed \<Longrightarrow>
   validBuildings G bs t r =
     Inr (filter (\<lambda>rec. \<exists>year\<in>set years. Feature_get rec (Height_y year) \<noteq> None) processed)"
  by (simp add: validBuildings_def ee_bind_def Collection_filter_def matches_validationFilters
      del: matches.simps)

lemma validBuildings_small_filter:
  "processedBuildings_small G bs t r = Inr processed \<Longrightarrow>
   validBuildings_small G bs t r =
     Inr (filter (\<lambda>rec. \<exists>year\<in>set years. Feature_get rec (Height_y year) \<noteq> None) processed)"
  by (simp add: validBuildings_small_def ee_bind_def Collection_filter_def matches_validationFilters
      del: matches.simps)

lemma validBuildings_2023_filter:
  "processedBuildings_2023 G bs t r = Inr processed \<Longrightarrow>
   validBuildings_2023 G bs t r = Inr (filter (\<lambda>rec. Feature_get rec Height \<noteq> None) processed)"
  by (simp add: validBuildings_2023_def ee_bind_def Collection_filter_def)

lemma validBuildings_Inr:
  "validBuildings G bs t r = Inr valid \<Longrightarrow>
   \<exists>processed. processedBuildings G bs t r = Inr processed
     \<and> valid = filter (\<lambda>rec. \<exists>year\<in>set years. Feature_get rec (Height_y year) \<noteq> None) processed"
  by (cases "processedBuildings G bs t r")
     (simp_all add: validBuildings_filter, simp add: validBuildings_def ee_bind_def)

lemma list_all2_source:
  "list_all2 P xs ys \<Longrightarrow> y \<in> set ys \<Longrightarrow> \<exists>x\<in>set xs. P x y"
  by (induction xs ys rule: list_all2_induct) auto

lemma traverse_source:
  "traverse f xs = Inr ys \<Longrightarrow> y \<in> set ys \<Longrightarrow> \<exists>x\<in>set xs. f x = Inr y"
  using list_all2_source [of "\<lambda>x y. f x = Inr y" xs ys y] by (simp add: traverse_Inr_iff)

lemma filteredBuildings_iff:
  "b \<in> set (filteredBuildings G bs r) \<longleftrightarrow>
     b \<in> set bs \<and> geo_intersects G (geometry b) r
     \<and> (\<exists>c. Feature_get b Confidence = Some c \<and> c \<ge> 0.7)"
  by (auto simp: filteredBuildings_def Collection_filter_def filterBounds_def split: option.splits)

lemma year_heights_lookup:
  assumes "list_all2 (\<lambda>year e. \<exists>h. e = [(Height_y year, h)] \<and> P year h) ys yh"
    and "y \<in> set ys"
  shows "\<exists>h. map_of (concat yh) (Height_y y) = Some h \<and> P y h"
  using assms
proof (induction ys yh rule: list_all2_induct)
  case Nil
  then show ?case by simp
next
  case (Cons x xs e es)
  then obtain h where e: "e = [(Height_y x, h)]" and p: "P x h"
    by blast
  show ?case
  proof (cases "x = y")
    case True
    with e p show ?thesis by auto
  next
    case False
    with Cons have "y \<in> set xs" by simp
    with Cons.IH obtain h' where "map_of (concat es) (Height_y y) = Some h'" "P y h'"
      by blast
    with False e show ?thesis by auto
  qed
qed

lemma getHeightsForAllYears_Inr:
  assumes "getHeightsForAllYears G t r f = Inr rec"
  shows "\<exists>yh. rec = \<lparr>geometry = geo_centroid G (geometry f),
                     properties = [(Longitude, Some (fst (geo_centroid G (geometry f)))),
                                   (Latitude, Some (snd (geo_centroid G (geometry f)))),
                                   (Confidence, Feature_get f Confidence)] @ concat yh\<rparr>
           \<and> list_all2 (\<lambda>year e. \<exists>h. e = [(Height_y year, h)]
                 \<and> (\<exists>img. heightImages_get (heightImages G t r) year = Inr img
                      \<and> sampleHeight G img (geo_centroid G (geometry f)) = Inr h))
               years yh"
proof -
  from assms obtain yh where
    yh: "list_all2 (\<lambda>year e.
           ee_bind (heightImages_get (heightImages G t r) year) (\<lambda>heightImage.
           ee_bind (sampleHeight G heightImage (geo_centroid G (geometry f))) (\<lambda>heightVal.
             Inr [(Height_y year, heightVal)])) = Inr e) years yh"
    and rec: "rec = \<lparr>geometry = geo_centroid G (geometry f),
                     properties = [(Longitude, Some (fst (geo_centroid G (geometry f)))),
                                   (Latitude, Some (snd (geo_centroid G (geometry f)))),
                                   (Confidence, Feature_get f Confidence)] @ concat yh\<rparr>"
    by (auto simp: getHeightsForAllYears_def Let_def ee_bind_Inr_iff traverse_Inr_iff
        Dictionary_combine_def)
  from yh have "list_all2 (\<lambda>year e. \<exists>h. e = [(Height_y year, h)]
                 \<and> (\<exists>img. heightImages_get (heightImages G t r) year = Inr img
                      \<and> sampleHeight G img (geo_centroid G (geometry f)) = Inr h))
               years yh"
    by (rule list_all2_mono) (auto simp: ee_bind_Inr_iff)
  with rec show ?thesis by blast
qed

lemma getHeightsForAllYears_base:
  assumes "getHeightsForAllYears G t r f = Inr rec"
  shows "geometry rec = geo_centroid G (geometry f)"
    and "Feature_get rec Longitude = Some (fst (geo_centroid G (geometry f)))"
    and "Feature_get rec Latitude = Some (snd (geo_centroid G (geometry f)))"
    and "Feature_get rec Confidence = Feature_get f Confidence"
  using getHeightsForAllYears_Inr [OF assms] by (auto simp: Feature_get_def)

lemma getHeightsForAllYears_year:
  assumes "getHeightsForAllYears G t r f = Inr rec" and "year \<in> set years"
  shows "\<exists>img. getHeightImageForYear G t r year = Inr img
           \<and> sampleHeight G img (geo_centroid G (geometry f)) = Inr (Feature_get rec (Height_y year))"
proof -
  from getHeightsForAllYears_Inr [OF assms(1)] obtain yh where
    rec: "properties rec = [(Longitude, Some (fst (geo_centroid G (geometry f)))),
                                   (Latitude, Some (snd (geo_centroid G (geometry f)))),
                                   (Confidence, Feature_get f Confidence)] @ concat yh"
    and yh: "list_all2 (\<lambda>year e. \<exists>h. e = [(Height_y year, h)]
                 \<and> (\<exists>img. heightImages_get (heightImages G t r) year = Inr img
                      \<and> sampleHeight G img (geo_centroid G (geometry f)) = Inr h))
               years yh"
    by auto
  from year_heights_lookup [OF yh assms(2)] obtain h img where
    "map_of (concat yh) (Height_y year) = Some h"
    "heightImages_get (heightImages G t r) year = Inr img"
    "sampleHeight G img (geo_centroid G (geometry f)) = Inr h"
    by blast
  then show ?thesis
    using assms(2) rec by (auto simp: Feature_get_def heightImages_get_year)
qed

lemma simplifyBuilding_Inr:
  assumes "simplifyBuilding G t r f = Inr rec"
  shows "geometry rec = geo_centroid G (geometry f)"
    and "Feature_get rec Longitude = Some (fst (geo_centroid G (geometry f)))"
    and "Feature_get rec Latitude = Some (snd (geo_centroid G (geometry f)))"
    and "Feature_get rec Confidence = Feature_get f Confidence"
    and "\<exists>img. getHeightImageForYear G t r 2023 = Inr img
           \<and> sampleHeight G img (geo_centroid G (geometry f)) = Inr (Feature_get rec Height)"
  using assms by (auto simp: simplifyBuilding_def Let_def ee_bind_Inr_iff Feature_get_def)

text \<open>
  A non-null sample of a resolved height image comes from a pixel whose centre lies
  inside the region.
\<close>

lemma sample_inside:
  assumes "getHeightImageForYear G t r year = Inr img"
    and "sampleHeight G img p = Inr (Some v)"
  shows "inside r (geo_pixel G 10 p)"
proof -
  from getHeightImageForYear_Inr [OF assms(1)] obtain b where
    "img = [(''building_height'', b)]" "\<forall>p. b p \<noteq> None \<longrightarrow> inside r p"
    by blast
  with assms(2) show ?thesis
    by (cases "geo_pixel G 10 p") (auto simp: sampleHeight_single)
qed

lemma processed_source:
  assumes "traverse derive (filteredBuildings G buildings region) = Inr processed"
    and "r \<in> set processed"
  shows "\<exists>b\<in>set buildings. \<exists>c. derive b = Inr r
           \<and> Feature_get b Confidence = Some c \<and> c \<ge> 0.7"
proof -
  from traverse_source [OF assms] obtain b where
    "b \<in> set (filteredBuildings G buildings region)" "derive b = Inr r"
    by blast
  then show ?thesis
    by (auto simp: filteredBuildings_iff)
qed

lemma validBuildings_small_Inr:
  "validBuildings_small G bs t r = Inr valid \<Longrightarrow>
   \<exists>processed. processedBuildings_small G bs t r = Inr processed
     \<and> valid = filter (\<lambda>rec. \<exists>year\<in>set years. Feature_get rec (Height_y year) \<noteq> None) processed"
  by (cases "processedBuildings_small G bs t r")
     (simp_all add: validBuildings_small_filter, simp add: validBuildings_small_def ee_bind_def)

lemma validBuildings_2023_Inr:
  "validBuildings_2023 G bs t r = Inr valid \<Longrightarrow>
   \<exists>processed. processedBuildings_2023 G bs t r = Inr processed
     \<and> valid = filter (\<lambda>rec. Feature_get rec Height \<noteq> None) processed"
  by (cases "processedBuildings_2023 G bs t r")
     (simp_all add: validBuildings_2023_filter, simp add: validBuildings_2023_def ee_bind_def)

lemma processed_confident:
  assumes "traverse derive (filteredBuildings G buildings region) = Inr processed"
    and "\<And>b rec. derive b = Inr rec \<Longrightarrow> Feature_get rec Confidence = Feature_get b Confidence"
  shows "\<forall>r\<in>set processed. \<exists>b\<in>set buildings. \<exists>c.
           derive b = Inr r \<and> Feature_get b Confidence = Some c \<and> c \<ge> 0.7
           \<and> Feature_get r Confidence = Some c"
proof
  fix r
  assume "r \<in> set processed"
  with processed_source [OF assms(1)] obtain b c where
    b: "b \<in> set buildings" "derive b = Inr r" "Feature_get b Confidence = Some c" "c \<ge> 0.7"
    by blast
  from assms(2) [OF b(2)] b(3) have "Feature_get r Confidence = Some c"
    by simp
  with b show "\<exists>b\<in>set buildings. \<exists>c.
           derive b = Inr r \<and> Feature_get b Confidence = Some c \<and> c \<ge> 0.7
           \<and> Feature_get r Confidence = Some c"
    by blast
qed

lemma getHeightsAndArea_inside:
  assumes "getHeightsAndArea G t r f = Inr rec" "year \<in> set years"
    "Feature_get rec (Height_y year) \<noteq> None"
  shows "inside r (geo_pixel G 10 (geometry rec))
         \<and> Feature_get rec Longitude = Some (fst (geometry rec))
         \<and> Feature_get rec Latitude = Some (snd (geometry rec))"
proof -
  from getHeightsAndArea_year [OF assms(1,2)] assms(3) obtain img v where
    "getHeightImageForYear G t r year = Inr img"
    "sampleHeight G img (geo_centroid G (geometry f)) = Inr (Some v)"
    by auto
  then have "inside r (geo_pixel G 10 (geo_centroid G (geometry f)))"
    by (rule sample_inside)
  with getHeightsAndArea_base(1-3) [OF assms(1)] show ?thesis
    by simp
qed

lemma getHeightsForAllYears_inside:
  assumes "getHeightsForAllYears G t r f = Inr rec" "year \<in> set years"
    "Feature_get rec (Height_y year) \<noteq> None"
  shows "inside r (geo_pixel G 10 (geometry rec))
         \<and> Feature_get rec Longitude = Some (fst (geometry rec))
         \<and> Feature_get rec Latitude = Some (snd (geometry rec))"
proof -
  from getHeightsForAllYears_year [OF assms(1,2)] assms(3) obtain img v where
    "getHeightImageForYear G t r year = Inr img"
    "sampleHeight G img (geo_centroid G (geometry f)) = Inr (Some v)"
    by auto
  then have "inside r (geo_pixel G 10 (geo_centroid G (geometry f)))"
    by (rule sample_inside)
  with getHeightsForAllYears_base(1-3) [OF assms(1)] show ?thesis
    by simp
qed

lemma simplifyBuilding_inside:
  assumes "simplifyBuilding G t r f = Inr rec" "Feature_get rec Height \<noteq> None"
  shows "inside r (geo_pixel G 10 (geometry rec))
         \<and> Feature_get rec Longitude = Some (fst (geometry rec))
         \<and> Feature_get rec Latitude = Some (snd (geometry rec))"
proof -
  from simplifyBuilding_Inr(5) [OF assms(1)] assms(2) obtain img v where
    "getHeightImageForYear G t r 2023 = Inr img"
    "sampleHeight G img (geo_centroid G (geometry f)) = Inr (Some v)"
    by auto
  then have "inside r (geo_pixel G 10 (geo_centroid G (geometry f)))"
    by (rule sample_inside)
  with simplifyBuilding_Inr(1-3) [OF assms(1)] show ?thesis
    by simp
qed

lemma last_valid_filter:
  "last_valid vs = (case filter (\<lambda>v. v \<noteq> None) vs of [] \<Rightarrow> None | w # ws \<Rightarrow> last (w # ws))"
proof (induction vs)
  case Nil
  then show ?case by simp
next
  case (Cons v vs)
  show ?case
  proof (cases "filter (\<lambda>v. v \<noteq> None) vs")
    case Nil
    with Cons show ?thesis
      by (cases v) simp_all
  next
    case (Cons w ws)
    then have "last (w # ws) \<in> set (filter (\<lambda>v. v \<noteq> None) vs)"
      by (metis last_in_set list.distinct(1))
    then obtain x where x: "last (w # ws) = Some x"
      by auto
    with Cons.IH Cons have "last_valid vs = Some x"
      by simp
    with x Cons show ?thesis
      by (cases v) simp_all
  qed
qed

lemma map_of_keyed_map:
  "map_of (map (\<lambda>(k, v). (k, f k v)) xs) k = map_option (f k) (map_of xs k)"
  by (induction xs) auto

lemma mosaic_band:
  "map_of (mosaic (first # rest)) name =
     map_option (\<lambda>_. \<lambda>p. last_valid (map (\<lambda>img. band_at img name p) (first # rest)))
       (map_of first name)"
proof -
  have "mosaic (first # rest) =
        map (\<lambda>(k, v). (k, (\<lambda>k _. \<lambda>p. last_valid (map (\<lambda>img. band_at img k p) (first # rest))) k v)) first"
    by (simp add: mosaic_def)
  then show ?thesis
    by (simp only: map_of_keyed_map)
qed

lemma clip_band_eq:
  "map_of (Image_clip r img) name =
     map_option (\<lambda>b. \<lambda>p. if inside r p then b p else None) (map_of img name)"
proof -
  have "Image_clip r img = map (\<lambda>(k, v). (k, (\<lambda>_ b. \<lambda>p. if inside r p then b p else None) k v)) img"
    by (simp add: Image_clip_def)
  then show ?thesis
    by (simp only: map_of_keyed_map)
qed

lemma calculateBGFA_total: "\<exists>v. calculateBGFA h a = Inr v"
  by (cases h) (simp_all add: calculateBGFA_None calculateBGFA_Some)

lemma sampleHeight_resolved:
  assumes "getHeightImageForYear G t r year = Inr img"
  shows "sampleHeight G img p = Inr (band_at img ''building_height'' (geo_pixel G 10 p))"
proof -
  from getHeightImageForYear_Inr [OF assms] obtain b where "img = [(''building_height'', b)]"
    by blast
  then show ?thesis
    by (simp add: sampleHeight_single band_at_def)
qed

lemma getHeightsAndArea_total:
  assumes "\<forall>year\<in>set years. \<exists>img. getHeightImageForYear G t r year = Inr img"
  shows "\<exists>rec. getHeightsAndArea G t r f = Inr rec"
proof -
  let ?c = "geo_centroid G (geometry f)" and ?a = "geo_area G (geometry f)"
  let ?step = "\<lambda>year.
            ee_bind (heightImages_get (heightImages G t r) year) (\<lambda>heightImage.
            ee_bind (sampleHeight G heightImage ?c) (\<lambda>heightVal.
            ee_bind (calculateBGFA heightVal ?a) (\<lambda>bgfaVal.
              Inr [(Height_y year, heightVal), (Bgfa_y year, Some bgfaVal)])))"
  have "\<exists>e. ?step year = Inr e" if "year \<in> set years" for year
  proof -
    from assms that obtain img where img: "getHeightImageForYear G t r year = Inr img"
      by blast
    obtain v where
      "calculateBGFA (band_at img ''building_height'' (geo_pixel G 10 ?c)) ?a = Inr v"
      using calculateBGFA_total by blast
    with img that show ?thesis
      by (simp add: heightImages_get_year sampleHeight_resolved ee_bind_def)
  qed
  then obtain yd where "traverse ?step years = Inr yd"
    using traverse_total [of years ?step] by blast
  then show ?thesis
    by (simp add: getHeightsAndArea_def Let_def ee_bind_def)
qed

lemma getHeightsForAllYears_total:
  assumes "\<forall>year\<in>set years. \<exists>img. getHeightImageForYear G t r year = Inr img"
  shows "\<exists>rec. getHeightsForAllYears G t r f = Inr rec"
proof -
  let ?c = "geo_centroid G (geometry f)"
  let ?step = "\<lambda>year.
            ee_bind (heightImages_get (heightImages G t r) year) (\<lambda>heightImage.
            ee_bind (sampleHeight G heightImage ?c) (\<lambda>heightVal.
              Inr [(Height_y year, heightVal)]))"
  have "\<exists>e. ?step year = Inr e" if "year \<in> set years" for year
  proof -
    from assms that obtain img where img: "getHeightImageForYear G t r year = Inr img"
      by blast
    with that show ?thesis
      by (simp add: heightImages_get_year sampleHeight_resolved ee_bind_def)
  qed
  then obtain yh where "traverse ?step years = Inr yh"
    using traverse_total [of years ?step] by blast
  then show ?thesis
    by (simp add: getHeightsForAllYears_def Let_def ee_bind_def)
qed

lemma getHeightsAndArea_height:
  assumes "getHeightsAndArea G t r f = Inr rec" "year \<in> set years"
    "getHeightImageForYear G t r year = Inr img"
  shows "Feature_get rec (Height_y year)
           = band_at img ''building_height'' (geo_pixel G 10 (geo_centroid G (geometry f)))"
proof -
  from getHeightsAndArea_year [OF assms(1,2)] assms(3) have
    "sampleHeight G img (geo_centroid G (geometry f)) = Inr (Feature_get rec (Height_y year))"
    by auto
  then show ?thesis
    by (simp add: sampleHeight_resolved [OF assms(3)])
qed

lemma notNull_single:
  "Collection_filter (Filter_notNull [k]) fs = filter (\<lambda>f. Feature_get f k \<noteq> None) fs"
  by (simp add: Collection_filter_def)

lemma map_filter_all_length:
  "\<forall>x\<in>set xs. g x \<noteq> None \<Longrightarrow> length (List.map_filter g xs) = length xs"
  by (induction xs) (auto simp: List.map_filter_simps)

lemma valid_has_bgfa:
  assumes "validBuildings G bs t reg = Inr valid" "year \<in> set years" "r \<in> set valid"
  shows "Feature_get r (Bgfa_y year) \<noteq> None"
proof -
  from validBuildings_Inr [OF assms(1)] assms(3) obtain processed where
    "processedBuildings G bs t reg = Inr processed" "r \<in> set processed"
    by auto
  then obtain b where "getHeightsAndArea G t reg b = Inr r"
    unfolding processedBuildings_def by (blast dest: traverse_source)
  from getHeightsAndArea_year [OF this assms(2)] show ?thesis
    by auto
qed

lemma ee_bind_Inr: "ee_bind (Inr x) f = f x"
  by (simp add: ee_bind_def)

lemma band_at_Some:
  "band_at m name p = Some v \<Longrightarrow> \<exists>b. map_of m name = Some b \<and> b p = Some v"
  by (auto simp: band_at_def split: option.splits)

lemma updateMask_band:
  "map_of (updateMask m ((n, msk) # ms)) name =
     map_option (\<lambda>b. \<lambda>p. case msk p of None \<Rightarrow> None | Some w \<Rightarrow> if w = 0 then None else b p)
       (map_of m name)"
proof -
  have "updateMask m ((n, msk) # ms) =
        map (\<lambda>(k, v). (k, (\<lambda>_ b. \<lambda>p. case msk p of None \<Rightarrow> None
                                      | Some w \<Rightarrow> if w = 0 then None else b p) k v)) m"
    by (simp add: updateMask_def)
  then show ?thesis
    by (simp only: map_of_keyed_map)
qed

lemma analyzeMosaic_pixel:
  assumes "band_at m ''building_presence'' p = Some w" "w > 0.2"
    and "band_at m ''building_height'' p = Some v"
    and "band_at m ''building_fractional_count'' p = Some c"
  shows "analyzeMosaic scale [p] (year, m) =
           Inr \<lparr>count_year = year, count = c * (2 * scale) ^ 2, avgHeight = v * 10,
                avgFloors = v * 10 / 3, presence = Some w\<rparr>"
proof -
  from assms obtain pres hb fb where
    pres: "map_of m ''building_presence'' = Some pres" "pres p = Some w"
    and hb: "map_of m ''building_height'' = Some hb" "hb p = Some v"
    and fb: "map_of m ''building_fractional_count'' = Some fb" "fb p = Some c"
    by (blast dest: band_at_Some)
  let ?msk = "\<lambda>p. map_option (\<lambda>v. if v > 0.2 then 1 else (0::real)) (pres p)"
  let ?upd = "\<lambda>b. \<lambda>p. case ?msk p of None \<Rightarrow> None | Some w \<Rightarrow> if w = 0 then None else b p"
  have sel: "Image_select ''building_presence'' m = Inr [(''building_presence'', pres)]"
    by (simp add: Image_select_def pres)
  have gt: "Image_gt [(''building_presence'', pres)] 0.2 = [(''building_presence'', ?msk)]"
    by (simp add: Image_gt_def)
  have list: "Image_select_list
                 [''building_fractional_count'', ''building_height'', ''building_presence'']
                 (updateMask m [(''building_presence'', ?msk)])
              = Inr [(''building_fractional_count'', ?upd fb), (''building_height'', ?upd hb),
                     (''building_presence'', ?upd pres)]"
    by (simp add: Image_select_list_def updateMask_band pres hb fb ee_bind_def)
  have vals: "?upd fb p = Some c" "?upd hb p = Some v" "?upd pres p = Some w"
    using assms(2) by (simp_all add: pres hb fb)
  have stats: "reduceRegion_mean
                 [(''building_fractional_count'', ?upd fb), (''building_height'', ?upd hb),
                  (''building_presence'', ?upd pres)] [p]
               = [(''building_fractional_count'', Some c), (''building_height'', Some v),
                  (''building_presence'', Some w)]"
    using vals by (simp add: reduceRegion_mean_def List.map_filter_simps Let_def)
  show ?thesis
    unfolding analyzeMosaic_def Let_def fst_conv snd_conv sel ee_bind_Inr gt list stats
    by (simp add: ee_bind_def Dictionary_get_def Number_multiply_def Number_divide_def
        FLOOR_HEIGHT_def)
qed

lemma traverse_fails:
  "x \<in> set xs \<Longrightarrow> f x = Inl e \<Longrightarrow> \<exists>e'. traverse f xs = Inl e'"
proof (induction xs)
  case Nil
  then show ?case by simp
next
  case (Cons a xs)
  then show ?case
    by (cases "f a"; cases "traverse f xs") (auto simp: ee_bind_def)
qed

lemma traverse_all_fail:
  assumes "xs \<noteq> []" and "\<And>x. \<exists>e. f x = Inl e"
  shows "\<exists>e'. traverse f xs = Inl e'"
proof -
  from assms(1) obtain x where "x \<in> set xs"
    by (cases xs) auto
  moreover from assms(2) obtain e where "f x = Inl e"
    by blast
  ultimately show ?thesis
    by (rule traverse_fails)
qed

lemma no_scene_no_image:
  assumes "filterBounds G r (Collection_filter
             (Filter_eq Inference_time_epoch_s (real_of_int (Date_millis year) / 1000)) t) = []"
  shows "getHeightImageForYear G t r year = Inl (BandNotFound ''building_height'')"
  using assms
  by (simp add: getHeightImageForYear_def mosaic_def Image_clip_def Image_select_def
      del: matches.simps)

lemma getHeightsAndArea_fails:
  assumes "year \<in> set years" "getHeightImageForYear G t r year = Inl e"
  shows "\<exists>e'. getHeightsAndArea G t r f = Inl e'"
proof -
  let ?c = "geo_centroid G (geometry f)" and ?a = "geo_area G (geometry f)"
  let ?step = "\<lambda>year.
            ee_bind (heightImages_get (heightImages G t r) year) (\<lambda>heightImage.
            ee_bind (sampleHeight G heightImage ?c) (\<lambda>heightVal.
            ee_bind (calculateBGFA heightVal ?a) (\<lambda>bgfaVal.
              Inr [(Height_y year, heightVal), (Bgfa_y year, Some bgfaVal)])))"
  from assms have "?step year = Inl e"
    by (simp add: heightImages_get_year ee_bind_def)
  with assms(1) obtain e' where "traverse ?step years = Inl e'"
    using traverse_fails [of year years ?step e] by blast
  then show ?thesis
    by (simp add: getHeightsAndArea_def Let_def ee_bind_def)
qed

lemma getHeightsForAllYears_fails:
  assumes "year \<in> set years" "getHeightImageForYear G t r year = Inl e"
  shows "\<exists>e'. getHeightsForAllYears G t r f = Inl e'"
proof -
  let ?c = "geo_centroid G (geometry f)"
  let ?step = "\<lambda>year.
            ee_bind (heightImages_get (heightImages G t r) year) (\<lambda>heightImage.
            ee_bind (sampleHeight G heightImage ?c) (\<lambda>heightVal.
              Inr [(Height_y year, heightVal)]))"
  from assms have "?step year = Inl e"
    by (simp add: heightImages_get_year ee_bind_def)
  with assms(1) obtain e' where "traverse ?step years = Inl e'"
    using traverse_fails [of year years ?step e] by blast
  then show ?thesis
    by (simp add: getHeightsForAllYears_def Let_def ee_bind_def)
qed

lemma run_fails:
  assumes "year \<in> set years" "getHeightImageForYear G t r year = Inl e"
    and "filteredBuildings G bs r \<noteq> []"
  shows "\<exists>e'. processedBuildings G bs t r = Inl e' \<and> validBuildings G bs t r = Inl e'"
    and "\<exists>e'. processedBuildings_small G bs t r = Inl e' \<and> validBuildings_small G bs t r = Inl e'"
proof -
  have "\<exists>e'. processedBuildings G bs t r = Inl e'"
    unfolding processedBuildings_def
    using assms(3) getHeightsAndArea_fails [OF assms(1,2)] by (rule traverse_all_fail)
  then show "\<exists>e'. processedBuildings G bs t r = Inl e' \<and> validBuildings G bs t r = Inl e'"
    by (auto simp: validBuildings_def ee_bind_def)
  have "\<exists>e'. processedBuildings_small G bs t r = Inl e'"
    unfolding processedBuildings_small_def
    using assms(3) getHeightsForAllYears_fails [OF assms(1,2)] by (rule traverse_all_fail)
  then show "\<exists>e'. processedBuildings_small G bs t r = Inl e'
               \<and> validBuildings_small G bs t r = Inl e'"
    by (auto simp: validBuildings_small_def ee_bind_def)
qed

lemma run_empty:
  assumes "filteredBuildings G bs r = []"
  shows "processedBuildings G bs t r = Inr [] \<and> validBuildings G bs t r = Inr []
         \<and> processedBuildings_small G bs t r = Inr [] \<and> validBuildings_small G bs t r = Inr []"
  using assms
  by (simp add: processedBuildings_def validBuildings_def processedBuildings_small_def
      validBuildings_small_def ee_bind_def Collection_filter_def)

lemma matches_eq: "matches (Filter_eq k v) g = (g k = Some v)"
  by (cases "g k") auto

lemma YEARS_list: "YEARS = [2016, 2017, 2018, 2019, 2020, 2021, 2022, 2023]"
  by (simp add: YEARS_def upto_rec_numeral)

lemma annualMosaics_eq:
  "annualMosaics imageCollection =
     map (\<lambda>year. (year, mosaic (map bands
            (filter (\<lambda>s. Feature_get s Inference_time_epoch_s
                            = Some (real_of_int (Date_millis year) / 1000)) imageCollection))))
       [2016, 2017, 2018, 2019, 2020, 2021, 2022, 2023]"
  unfolding annualMosaics_def YEARS_list Collection_filter_def matches_eq Let_def
  by (rule refl)

lemma reduceRegion_mean_band:
  "map_of (reduceRegion_mean img aoi) name =
     map_option (\<lambda>b. if List.map_filter b aoi = [] then None
                      else Some (sum_list (List.map_filter b aoi)
                                 / real (length (List.map_filter b aoi))))
       (map_of img name)"
proof -
  have "reduceRegion_mean img aoi =
        map (\<lambda>(k, v). (k, (\<lambda>_ b. if List.map_filter b aoi = [] then None
                      else Some (sum_list (List.map_filter b aoi)
                                 / real (length (List.map_filter b aoi)))) k v)) img"
    by (simp add: reduceRegion_mean_def Let_def)
  then show ?thesis
    by (simp only: map_of_keyed_map)
qed

lemma list_all2_map_eq:
  assumes "list_all2 P xs ys" and "\<And>x y. P x y \<Longrightarrow> g y = f x"
  shows "map g ys = map f xs"
  using assms(1)
proof (induction rule: list_all2_induct)
  case Nil
  show ?case by simp
next
  case (Cons x xs y ys)
  with assms(2) [of x y] show ?case by simp
qed

lemma masked_band:
  "map_of (updateMask m (Image_gt [(n, pres)] c)) name =
     map_option (\<lambda>b p. case pres p of None \<Rightarrow> None | Some w \<Rightarrow> if w > c then b p else None)
       (map_of m name)"
proof (cases "map_of m name")
  case None
  then show ?thesis
    by (simp add: Image_gt_def updateMask_band)
next
  case (Some b)
  show ?thesis
    unfolding Image_gt_def list.map prod.case updateMask_band Some option.map
    by (rule arg_cong [where f = Some]) (rule ext, simp split: option.splits)
qed

lemma analyzeMosaic_mean:
  assumes "analyzeMosaic scale aoi (year, m) = Inr r"
  shows "count_year r = year \<and> avgFloors r = avgHeight r / 3
         \<and> (let hs = List.map_filter
                        (\<lambda>p. case band_at m ''building_presence'' p of
                                None \<Rightarrow> None
                              | Some w \<Rightarrow> if w > 0.2 then band_at m ''building_height'' p else None)
                        aoi
            in hs \<noteq> [] \<and> avgHeight r = 10 * (sum_list hs / real (length hs)))"
proof -
  define c :: real where "c = 0.2"
  from assms obtain presenceImage selected meanHeight where
    a1: "Image_select ''building_presence'' m = Inr presenceImage"
    and a2: "Image_select_list
               [''building_fractional_count'', ''building_height'', ''building_presence'']
               (updateMask m (Image_gt presenceImage c)) = Inr selected"
    and a3: "Dictionary_get (reduceRegion_mean selected aoi) ''building_height''
               = Inr (Some meanHeight)"
    and a4: "avgHeight r = meanHeight * 10" "avgFloors r = avgHeight r / 3" "count_year r = year"
    unfolding analyzeMosaic_def Let_def fst_conv snd_conv ee_bind_Inr_iff c_def [symmetric]
    by (auto simp: Number_multiply_def Number_divide_def FLOOR_HEIGHT_def split: option.splits)
  from a1 obtain pres where pres: "map_of m ''building_presence'' = Some pres"
    and img: "presenceImage = [(''building_presence'', pres)]"
    by (auto simp: Image_select_def split: option.splits)
  let ?upd = "\<lambda>b p. case pres p of None \<Rightarrow> None | Some w \<Rightarrow> if w > c then b p else None"
  from a2 obtain hb where hb: "map_of m ''building_height'' = Some hb"
    and sel: "map_of selected ''building_height'' = Some (?upd hb)"
    unfolding img Image_select_list_def
    by (auto simp: ee_bind_Inr_iff masked_band split: option.splits)
  let ?vs = "List.map_filter (?upd hb) aoi"
  from a3 sel have vs: "?vs \<noteq> []" "meanHeight = sum_list ?vs / real (length ?vs)"
    by (auto simp: Dictionary_get_def reduceRegion_mean_band split: if_splits)
  have b1: "band_at m ''building_presence'' = pres"
    by (rule ext) (simp add: band_at_def pres)
  have b2: "band_at m ''building_height'' = hb"
    by (rule ext) (simp add: band_at_def hb)
  from vs a4 show ?thesis
    unfolding c_def [symmetric] b1 b2 by (simp add: Let_def)
qed

lemma analyzeMosaic_eval:
  assumes pres: "map_of m ''building_presence'' = Some pres"
    and hb: "map_of m ''building_height'' = Some hb"
    and fb: "map_of m ''building_fractional_count'' = Some fb"
  shows "analyzeMosaic scale aoi (year, m) =
     (let upd = (\<lambda>b p. case map_option (\<lambda>v. if v > 0.2 then 1 else (0::real)) (pres p) of
                          None \<Rightarrow> None | Some w \<Rightarrow> if w = 0 then None else b p);
          mean = (\<lambda>b. if List.map_filter (upd b) aoi = [] then None
                       else Some (sum_list (List.map_filter (upd b) aoi)
                                  / real (length (List.map_filter (upd b) aoi))))
      in ee_bind (Number_multiply (mean fb) ((2 * scale) ^ 2)) (\<lambda>totalCount.
         ee_bind (Number_multiply (mean hb) 10) (\<lambda>avgHeight.
           Inr \<lparr>count_year = year, count = totalCount, avgHeight = avgHeight,
                avgFloors = avgHeight / 3, presence = mean pres\<rparr>)))"
proof -
  let ?msk = "\<lambda>p. map_option (\<lambda>v. if v > 0.2 then 1 else (0::real)) (pres p)"
  let ?upd = "\<lambda>b. \<lambda>p. case ?msk p of None \<Rightarrow> None | Some w \<Rightarrow> if w = 0 then None else b p"
  let ?mean = "\<lambda>b. if List.map_filter (?upd b) aoi = [] then None
                       else Some (sum_list (List.map_filter (?upd b) aoi)
                                  / real (length (List.map_filter (?upd b) aoi)))"
  have sel: "Image_select ''building_presence'' m = Inr [(''building_presence'', pres)]"
    by (simp add: Image_select_def pres)
  have gt: "Image_gt [(''building_presence'', pres)] 0.2 = [(''building_presence'', ?msk)]"
    by (simp add: Image_gt_def)
  have list: "Image_select_list
                 [''building_fractional_count'', ''building_height'', ''building_presence'']
                 (updateMask m [(''building_presence'', ?msk)])
              = Inr [(''building_fractional_count'', ?upd fb), (''building_height'', ?upd hb),
                     (''building_presence'', ?upd pres)]"
    by (simp add: Image_select_list_def updateMask_band pres hb fb ee_bind_def)
  have stats: "reduceRegion_mean
                 [(''building_fractional_count'', ?upd fb), (''building_height'', ?upd hb),
                  (''building_presence'', ?upd pres)] aoi
               = [(''building_fractional_count'', ?mean fb), (''building_height'', ?mean hb),
                  (''building_presence'', ?mean pres)]"
    by (simp add: reduceRegion_mean_def Let_def)
  show ?thesis
    unfolding analyzeMosaic_def Let_def fst_conv snd_conv sel ee_bind_Inr gt list stats
    by (simp add: ee_bind_def Dictionary_get_def Number_multiply_def Number_divide_def
        FLOOR_HEIGHT_def split: sum.splits option.splits)
qed

lemma sampleHeight_map_of:
  "sampleHeight G img q =
     (case map_of img ''building_height'' of
        None \<Rightarrow> Inl KeyNotFound
      | Some b \<Rightarrow> Inr (b (geo_pixel G 10 q)))"
proof -
  have "reduceRegion_first G img q 10 =
        map (\<lambda>(k, v). (k, (\<lambda>_ b. b (geo_pixel G 10 q)) k v)) img"
    by (simp add: reduceRegion_first_def)
  then have "map_of (reduceRegion_first G img q 10) ''building_height''
             = map_option (\<lambda>b. b (geo_pixel G 10 q)) (map_of img ''building_height'')"
    by (simp only: map_of_keyed_map)
  then show ?thesis
    by (simp add: sampleHeight_def Dictionary_get_def split: option.splits)
qed

lemma analyzeBuildings_Inr:
  assumes "analyzeBuildings imageCollection scale aoi = Inr counts"
  shows "list_all2 (\<lambda>ym r. analyzeMosaic scale aoi ym = Inr r)
           (annualMosaics imageCollection) counts"
    and "map count_year counts = [2016, 2017, 2018, 2019, 2020, 2021, 2022, 2023]"
proof -
  from assms show all: "list_all2 (\<lambda>ym r. analyzeMosaic scale aoi ym = Inr r)
           (annualMosaics imageCollection) counts"
    by (simp add: analyzeBuildings_def traverse_Inr_iff)
  have "count_year r = fst ym" if "analyzeMosaic scale aoi ym = Inr r" for ym r
    using analyzeMosaic_mean [of scale aoi "fst ym" "snd ym" r] that by simp
  with all have "map count_year counts = map fst (annualMosaics imageCollection)"
    by (rule list_all2_map_eq)
  then show "map count_year counts = [2016, 2017, 2018, 2019, 2020, 2021, 2022, 2023]"
    by (simp add: annualMosaics_eq comp_def)
qed

subsection \<open>The scripts on the concrete inputs\<close>

lemma example_mosaic_last_wins:
  "band_at (mosaic [[(''building_height'', \<lambda>p. Some 5)], [(''building_height'', \<lambda>p. Some 7)]])
     ''building_height'' p = Some 7"
  "band_at (mosaic [[(''building_height'', \<lambda>p. Some 5)], [(''building_height'', \<lambda>p. None)]])
     ''building_height'' p = Some 5"
  "mosaic [] = []"
  by (simp_all add: mosaic_def band_at_def)

lemma Date_millis_years:
  "Date_millis 2016 = 1467270000000" "Date_millis 2017 = 1498806000000"
  "Date_millis 2018 = 1530342000000" "Date_millis 2019 = 1561878000000"
  "Date_millis 2020 = 1593500400000" "Date_millis 2021 = 1625036400000"
  "Date_millis 2022 = 1656572400000" "Date_millis 2023 = 1688108400000"
  by (simp_all add: Date_millis_def days_before_year_def is_leap_year_def)

lemma example_scene_match:
  "matches (Filter_eq Inference_time_epoch_s e) (Feature_get (example_scene e' h)) = (e' = e)"
  by (simp add: example_scene_def Feature_get_def)

lemma example_scene_bounds:
  "geo_intersects box_geo (geometry (example_scene e h)) puneRegion"
  by (simp add: example_scene_def box_geo_def boxes_overlap_def puneRegion_def)

lemma example_resolve_one:
  "Image_select ''building_height'' (Image_clip puneRegion (mosaic [bands (example_scene e h)]))
   = Inr (example_image h)"
  by (simp add: example_scene_def Image_select_def Image_clip_def mosaic_def band_at_def example_image_def)

lemma example_getHeightImageForYear:
  "getHeightImageForYear box_geo example_temporal puneRegion 2016 = Inr (example_image None)"
  "getHeightImageForYear box_geo example_temporal puneRegion 2017 = Inr (example_image None)"
  "getHeightImageForYear box_geo example_temporal puneRegion 2018 = Inr (example_image None)"
  "getHeightImageForYear box_geo example_temporal puneRegion 2019 = Inr (example_image None)"
  "getHeightImageForYear box_geo example_temporal puneRegion 2020 = Inr (example_image None)"
  "getHeightImageForYear box_geo example_temporal puneRegion 2021 = Inr (example_image None)"
  "getHeightImageForYear box_geo example_temporal puneRegion 2022 = Inr (example_image None)"
  "getHeightImageForYear box_geo example_temporal puneRegion 2023 = Inr (example_image (Some 9))"
  by (simp_all add: getHeightImageForYear_def Date_millis_years example_temporal_def
      Collection_filter_def filterBounds_def example_scene_match example_scene_bounds
      example_resolve_one del: matches.simps)


lemma example_heightImages_get:
  "heightImages_get (heightImages box_geo example_temporal puneRegion) 2016 = Inr (example_image None)"
  "heightImages_get (heightImages box_geo example_temporal puneRegion) 2017 = Inr (example_image None)"
  "heightImages_get (heightImages box_geo example_temporal puneRegion) 2018 = Inr (example_image None)"
  "heightImages_get (heightImages box_geo example_temporal puneRegion) 2019 = Inr (example_image None)"
  "heightImages_get (heightImages box_geo example_temporal puneRegion) 2020 = Inr (example_image None)"
  "heightImages_get (heightImages box_geo example_temporal puneRegion) 2021 = Inr (example_image None)"
  "heightImages_get (heightImages box_geo example_temporal puneRegion) 2022 = Inr (example_image None)"
  "heightImages_get (heightImages box_geo example_temporal puneRegion) 2023 = Inr (example_image (Some 9))"
  by (simp_all add: heightImages_get_year example_getHeightImageForYear years_def)

lemma example_sample:
  "sampleHeight box_geo (example_image h) p
     = Inr (if inside puneRegion (geo_pixel box_geo 10 p) then h else None)"
  by (simp add: example_image_def sampleHeight_def reduceRegion_first_def Dictionary_get_def)

lemma box_geo_sel:
  "geo_centroid box_geo g = fst g" "geo_area box_geo g = fst (snd g)"
  "geo_intersects box_geo g r = boxes_overlap (snd (snd g)) r"
  "geo_pixel box_geo scale p = (snap scale (fst p), snap scale (snd p))"
  by (simp_all add: box_geo_def)

lemma example_pixels:
  "geo_pixel box_geo 10 example_centroid = example_centroid"
  "geo_pixel box_geo 10 example_centroid_edge = example_centroid_edge"
  by (simp_all add: box_geo_sel snap_def example_centroid_def example_centroid_edge_def)

lemma example_inside:
  "inside puneRegion example_centroid" "\<not> inside puneRegion example_centroid_edge"
  by (simp_all add: inside_def puneRegion_def example_centroid_def example_centroid_edge_def)

lemma example_get: "getHeightsAndArea box_geo example_temporal puneRegion example_building = Inr example_record"
proof -
  have "getHeightsAndArea box_geo example_temporal puneRegion example_building =
        Inr \<lparr>geometry = example_centroid,
             properties = [(Longitude, Some (fst example_centroid)),
                           (Latitude, Some (snd example_centroid)),
                           (Confidence, Some 0.9), (Area_m2, Some 30),
         (Height_y 2016, None), (Bgfa_y 2016, Some 30),
         (Height_y 2017, None), (Bgfa_y 2017, Some 30),
         (Height_y 2018, None), (Bgfa_y 2018, Some 30),
         (Height_y 2019, None), (Bgfa_y 2019, Some 30),
         (Height_y 2020, None), (Bgfa_y 2020, Some 30),
         (Height_y 2021, None), (Bgfa_y 2021, Some 30),
         (Height_y 2022, None), (Bgfa_y 2022, Some 30),
         (Height_y 2023, Some 9), (Bgfa_y 2023, Some 90)]\<rparr>"
    by (simp add: getHeightsAndArea_def example_heightImages_get example_sample years_def
      example_building_def box_geo_sel(1-3) example_pixels example_inside ee_bind_def calculateBGFA_None calculateBGFA_Some
      Dictionary_combine_def Feature_get_def Let_def)
  then show ?thesis
    by (simp add: example_record_def example_centroid_def)
qed


lemma example_getSmall:
  "getHeightsForAllYears box_geo example_temporal puneRegion example_building = Inr example_record_small"
proof -
  have "getHeightsForAllYears box_geo example_temporal puneRegion example_building =
        Inr \<lparr>geometry = example_centroid,
             properties = [(Longitude, Some (fst example_centroid)),
                           (Latitude, Some (snd example_centroid)),
                           (Confidence, Some 0.9),
         (Height_y 2016, None), (Height_y 2017, None), (Height_y 2018, None),
         (Height_y 2019, None), (Height_y 2020, None), (Height_y 2021, None),
         (Height_y 2022, None), (Height_y 2023, Some 9)]\<rparr>"
    by (simp add: getHeightsForAllYears_def example_heightImages_get example_sample years_def
      example_building_def box_geo_sel(1-3) example_pixels example_inside ee_bind_def
      Dictionary_combine_def Feature_get_def Let_def)
  then show ?thesis
    by (simp add: example_record_small_def example_centroid_def)
qed

lemma example_simplify:
  "simplifyBuilding box_geo example_temporal puneRegion example_building = Inr example_record_2023"
proof -
  have "simplifyBuilding box_geo example_temporal puneRegion example_building =
        Inr \<lparr>geometry = example_centroid,
             properties = [(Longitude, Some (fst example_centroid)),
                           (Latitude, Some (snd example_centroid)),
                           (Height, Some 9), (Confidence, Some 0.9)]\<rparr>"
    by (simp add: simplifyBuilding_def example_getHeightImageForYear example_sample
      example_building_def box_geo_sel(1-3) example_pixels example_inside ee_bind_def Feature_get_def Let_def)
  then show ?thesis
    by (simp add: example_record_2023_def example_centroid_def)
qed

lemma example_filtered:
  "filteredBuildings box_geo example_buildings puneRegion = [example_building]"
  by (simp add: filteredBuildings_def filterBounds_def Collection_filter_def example_buildings_def
      example_building_def example_building_low_def box_geo_sel boxes_overlap_def puneRegion_def
      Feature_get_def)

lemma example_processed:
  "processedBuildings box_geo example_buildings example_temporal puneRegion = Inr [example_record]"
  "processedBuildings_small box_geo example_buildings example_temporal puneRegion = Inr [example_record_small]"
  "processedBuildings_2023 box_geo example_buildings example_temporal puneRegion = Inr [example_record_2023]"
  by (simp_all add: processedBuildings_def processedBuildings_small_def processedBuildings_2023_def
      example_filtered example_get example_getSmall example_simplify ee_bind_def)

lemma example_retained:
  "Feature_get example_record (Height_y 2023) = Some 9"
  "Feature_get example_record_small (Height_y 2023) = Some 9"
  "Feature_get example_record_2023 Height = Some 9"
  by (simp_all add: example_record_def example_record_small_def example_record_2023_def
      Feature_get_def)

lemma example_valid:
  "validBuildings box_geo example_buildings example_temporal puneRegion = Inr [example_record]"
  "validBuildings_small box_geo example_buildings example_temporal puneRegion = Inr [example_record_small]"
  "validBuildings_2023 box_geo example_buildings example_temporal puneRegion = Inr [example_record_2023]"
  by (simp_all add: validBuildings_filter validBuildings_small_filter validBuildings_2023_filter
      example_processed example_retained years_def)

text \<open>
  The bounds filter keeps the building on the edge of the region, whose centroid lies
  outside it; its record has no height in any year and is dropped by the validity filter.
\<close>

lemma example_get_edge:
  "getHeightsAndArea box_geo example_temporal puneRegion example_building_edge
     = Inr example_record_edge"
proof -
  have "getHeightsAndArea box_geo example_temporal puneRegion example_building_edge =
        Inr \<lparr>geometry = example_centroid_edge,
             properties = [(Longitude, Some (fst example_centroid_edge)),
                           (Latitude, Some (snd example_centroid_edge)),
                           (Confidence, Some 0.8), (Area_m2, Some 40),
         (Height_y 2016, None), (Bgfa_y 2016, Some 40),
         (Height_y 2017, None), (Bgfa_y 2017, Some 40),
         (Height_y 2018, None), (Bgfa_y 2018, Some 40),
         (Height_y 2019, None), (Bgfa_y 2019, Some 40),
         (Height_y 2020, None), (Bgfa_y 2020, Some 40),
         (Height_y 2021, None), (Bgfa_y 2021, Some 40),
         (Height_y 2022, None), (Bgfa_y 2022, Some 40),
         (Height_y 2023, None), (Bgfa_y 2023, Some 40)]\<rparr>"
    by (simp add: getHeightsAndArea_def example_heightImages_get example_sample years_def
      example_building_edge_def box_geo_sel(1-3) example_pixels example_inside ee_bind_def calculateBGFA_None
      Dictionary_combine_def Feature_get_def Let_def)
  then show ?thesis
    by (simp add: example_record_edge_def example_centroid_edge_def)
qed

lemma example_edge_processed:
  "processedBuildings box_geo [example_building_edge] example_temporal puneRegion
     = Inr [example_record_edge]
   \<and> \<not> inside puneRegion (geometry example_record_edge)
   \<and> validBuildings box_geo [example_building_edge] example_temporal puneRegion = Inr []"
proof -
  have f: "filteredBuildings box_geo [example_building_edge] puneRegion = [example_building_edge]"
    by (simp add: filteredBuildings_def filterBounds_def Collection_filter_def
        example_building_edge_def box_geo_sel boxes_overlap_def puneRegion_def Feature_get_def)
  have p: "processedBuildings box_geo [example_building_edge] example_temporal puneRegion
     = Inr [example_record_edge]"
    by (simp add: processedBuildings_def f example_get_edge ee_bind_def)
  have o: "\<not> inside puneRegion (geometry example_record_edge)"
    by (simp add: example_record_edge_def inside_def puneRegion_def)
  have "\<forall>year\<in>set years. Feature_get example_record_edge (Height_y year) = None"
    by (simp add: years_def example_record_edge_def Feature_get_def)
  with p have "validBuildings box_geo [example_building_edge] example_temporal puneRegion = Inr []"
    by (simp add: validBuildings_filter)
  with p o show ?thesis by simp
qed

lemma example_fields:
  "Feature_get example_record (Height_y 2016) = None"
  "Feature_get example_record (Bgfa_y 2016) = Some 30"
  "Feature_get example_record (Bgfa_y 2023) = Some 90"
  "Feature_get example_record Area_m2 = Some 30"
  "Feature_get example_record Confidence = Some 0.9"
  "Feature_get example_record_small Confidence = Some 0.9"
  "Feature_get example_record_2023 Confidence = Some 0.9"
  "Feature_get example_building Confidence = Some 0.9"
  "geo_area box_geo (geometry example_building) = 30"
  by (simp_all add: example_record_def example_record_small_def example_record_2023_def
      example_building_def Feature_get_def box_geo_sel)

lemma example_low:
  "Feature_get example_building_low Confidence = Some 0.5"
  "example_building_low \<in> set example_buildings"
  by (simp_all add: example_building_low_def example_buildings_def Feature_get_def)

lemma example_matching_2023:
  "filterBounds box_geo puneRegion
     (Collection_filter (Filter_eq Inference_time_epoch_s (real_of_int (Date_millis 2023) / 1000))
        example_temporal) = [example_scene 1688108400 (Some 9)]"
  by (simp add: Date_millis_years example_temporal_def Collection_filter_def filterBounds_def
      example_scene_match example_scene_bounds del: matches.simps)

lemma example_gap_2016:
  "getHeightImageForYear box_geo example_temporal_gap puneRegion 2016
     = Inl (BandNotFound ''building_height'')"
  by (simp add: getHeightImageForYear_def Date_millis_years example_temporal_gap_def
      Collection_filter_def filterBounds_def example_scene_match mosaic_def Image_clip_def
      Image_select_def del: matches.simps)

lemma years_first: "years = 2016 # [2017, 2018, 2019, 2020, 2021, 2022, 2023]"
  by (simp add: years_def)

lemma example_gap_building:
  "getHeightsAndArea box_geo example_temporal_gap puneRegion example_building
     = Inl (BandNotFound ''building_height'')"
  "getHeightsForAllYears box_geo example_temporal_gap puneRegion example_building
     = Inl (BandNotFound ''building_height'')"
proof -
  have "heightImages_get (heightImages box_geo example_temporal_gap puneRegion) 2016
          = Inl (BandNotFound ''building_height'')"
    by (simp add: heightImages_get_year example_gap_2016 years_def)
  then show "getHeightsAndArea box_geo example_temporal_gap puneRegion example_building
     = Inl (BandNotFound ''building_height'')"
    "getHeightsForAllYears box_geo example_temporal_gap puneRegion example_building
     = Inl (BandNotFound ''building_height'')"
    by (simp_all add: getHeightsAndArea_def getHeightsForAllYears_def Let_def years_first
        ee_bind_def)
qed

lemma example_pixel_boundary:
  "geo_pixel box_geo 10 example_centroid_boundary = (73.86, 18.525)"
  "inside puneRegion (geo_pixel box_geo 10 example_centroid_boundary)"
  "\<not> inside puneRegion example_centroid_boundary"
  by (simp_all add: box_geo_sel snap_def example_centroid_boundary_def inside_def puneRegion_def)

lemma example_get_boundary:
  "getHeightsAndArea box_geo example_temporal puneRegion example_building_boundary
     = Inr example_record_boundary"
proof -
  have "getHeightsAndArea box_geo example_temporal puneRegion example_building_boundary =
        Inr \<lparr>geometry = example_centroid_boundary,
             properties = [(Longitude, Some (fst example_centroid_boundary)),
                           (Latitude, Some (snd example_centroid_boundary)),
                           (Confidence, Some 0.8), (Area_m2, Some 40),
         (Height_y 2016, None), (Bgfa_y 2016, Some 40),
         (Height_y 2017, None), (Bgfa_y 2017, Some 40),
         (Height_y 2018, None), (Bgfa_y 2018, Some 40),
         (Height_y 2019, None), (Bgfa_y 2019, Some 40),
         (Height_y 2020, None), (Bgfa_y 2020, Some 40),
         (Height_y 2021, None), (Bgfa_y 2021, Some 40),
         (Height_y 2022, None), (Bgfa_y 2022, Some 40),
         (Height_y 2023, Some 9), (Bgfa_y 2023, Some 120)]\<rparr>"
    by (simp add: getHeightsAndArea_def example_heightImages_get example_sample years_def
      example_building_boundary_def box_geo_sel(1-3) example_pixel_boundary(2) ee_bind_def
      calculateBGFA_None calculateBGFA_Some Dictionary_combine_def Feature_get_def Let_def)
  then show ?thesis
    by (simp add: example_record_boundary_def example_centroid_boundary_def)
qed

lemma example_boundary_valid:
  "validBuildings box_geo [example_building_boundary] example_temporal puneRegion
     = Inr [example_record_boundary]
   \<and> Feature_get example_record_boundary Longitude = Some 73.86004
   \<and> maxLon puneRegion = 73.86
   \<and> \<not> inside puneRegion (geometry example_record_boundary)"
proof -
  have f: "filteredBuildings box_geo [example_building_boundary] puneRegion
             = [example_building_boundary]"
    by (simp add: filteredBuildings_def filterBounds_def Collection_filter_def
        example_building_boundary_def box_geo_sel boxes_overlap_def puneRegion_def Feature_get_def)
  have p: "processedBuildings box_geo [example_building_boundary] example_temporal puneRegion
     = Inr [example_record_boundary]"
    by (simp add: processedBuildings_def f example_get_boundary ee_bind_def)
  have h: "Feature_get example_record_boundary (Height_y 2023) = Some 9"
    "Feature_get example_record_boundary Longitude = Some 73.86004"
    by (simp_all add: example_record_boundary_def Feature_get_def)
  have o: "\<not> inside puneRegion (geometry example_record_boundary)" "maxLon puneRegion = 73.86"
    by (simp_all add: example_record_boundary_def inside_def puneRegion_def)
  from p h have "validBuildings box_geo [example_building_boundary] example_temporal puneRegion
     = Inr [example_record_boundary]"
    by (simp add: validBuildings_filter years_def)
  with h o show ?thesis by simp
qed

lemma example_edge_outside:
  "Feature_get example_record_edge Longitude = Some 73.8601"
  by (simp add: example_record_edge_def Feature_get_def)

lemma example_gap_matching:
  "filterBounds box_geo puneRegion
     (Collection_filter (Filter_eq Inference_time_epoch_s (real_of_int (Date_millis 2016) / 1000))
        example_temporal_gap) = []"
  by (simp add: Date_millis_years example_temporal_gap_def Collection_filter_def filterBounds_def
      example_scene_match del: matches.simps)

lemma example_filtered_low:
  "filteredBuildings box_geo [example_building_low] puneRegion = []"
  by (simp add: filteredBuildings_def filterBounds_def Collection_filter_def
      example_building_def example_building_low_def box_geo_sel boxes_overlap_def puneRegion_def
      Feature_get_def)

lemma example_single_mosaic:
  "band_at (mosaic [bands (example_scene e h)]) ''building_presence'' p = Some 1"
  "band_at (mosaic [bands (example_scene e h)]) ''building_height'' p = h"
  "band_at (mosaic [bands (example_scene e h)]) ''building_fractional_count'' p = Some (1 / 100)"
  by (simp_all add: mosaic_def example_scene_def band_at_def split: option.splits)

lemma example_analyze:
  "analyzeMosaic 10 [example_centroid] (year, mosaic [bands (example_scene e (Some v))])
     = Inr \<lparr>count_year = year, count = 4, avgHeight = v * 10, avgFloors = v * 10 / 3,
            presence = Some 1\<rparr>"
  using analyzeMosaic_pixel [of "mosaic [bands (example_scene e (Some v))]" example_centroid
      1 v "1 / 100" 10 year]
  by (simp add: example_single_mosaic)

lemma example_scene_epoch:
  "(Feature_get (example_scene e' h) Inference_time_epoch_s = Some e) = (e' = e)"
  by (simp add: example_scene_def Feature_get_def)

lemma example_annualMosaics:
  "annualMosaics example_temporal_built =
     [(2016, mosaic [bands (example_scene 1467270000 (Some 3))]),
      (2017, mosaic [bands (example_scene 1498806000 (Some 3))]),
      (2018, mosaic [bands (example_scene 1530342000 (Some 3))]),
      (2019, mosaic [bands (example_scene 1561878000 (Some 3))]),
      (2020, mosaic [bands (example_scene 1593500400 (Some 3))]),
      (2021, mosaic [bands (example_scene 1625036400 (Some 3))]),
      (2022, mosaic [bands (example_scene 1656572400 (Some 3))]),
      (2023, mosaic [bands (example_scene 1688108400 (Some 9))])]"
  by (simp add: annualMosaics_eq example_temporal_built_def Date_millis_years
      example_scene_epoch)

lemma example_analyzeBuildings:
  "analyzeBuildings example_temporal_built 10 [example_centroid] =
     Inr [\<lparr>count_year = 2016, count = 4, avgHeight = 30, avgFloors = 10, presence = Some 1\<rparr>,
          \<lparr>count_year = 2017, count = 4, avgHeight = 30, avgFloors = 10, presence = Some 1\<rparr>,
          \<lparr>count_year = 2018, count = 4, avgHeight = 30, avgFloors = 10, presence = Some 1\<rparr>,
          \<lparr>count_year = 2019, count = 4, avgHeight = 30, avgFloors = 10, presence = Some 1\<rparr>,
          \<lparr>count_year = 2020, count = 4, avgHeight = 30, avgFloors = 10, presence = Some 1\<rparr>,
          \<lparr>count_year = 2021, count = 4, avgHeight = 30, avgFloors = 10, presence = Some 1\<rparr>,
          \<lparr>count_year = 2022, count = 4, avgHeight = 30, avgFloors = 10, presence = Some 1\<rparr>,
          \<lparr>count_year = 2023, count = 4, avgHeight = 90, avgFloors = 30, presence = Some 1\<rparr>]"
  by (simp add: analyzeBuildings_def example_annualMosaics example_analyze ee_bind_def)

lemma example_pixels_distinct:
  "example_pixel_a \<noteq> example_pixel_b" "example_pixel_b \<noteq> example_pixel_a"
  "example_pixel_a \<noteq> example_pixel_c" "example_pixel_c \<noteq> example_pixel_a"
  "example_pixel_b \<noteq> example_pixel_c" "example_pixel_c \<noteq> example_pixel_b"
  "geo_pixel box_geo 10 example_pixel_c = example_pixel_c"
  by (simp_all add: example_pixel_a_def example_pixel_b_def example_pixel_c_def box_geo_sel
      snap_def)

lemma example_values3:
  "example_presence3 example_pixel_a = Some 0.2" "example_presence3 example_pixel_b = Some 0.5"
  "example_presence3 example_pixel_c = Some 0.1"
  "example_height3 example_pixel_a = Some 100" "example_height3 example_pixel_b = Some 6"
  "example_height3 example_pixel_c = Some 50"
  by (simp_all add: example_presence3_def example_height3_def example_pixels_distinct)

lemma example_analyze3:
  "analyzeMosaic 10 [example_pixel_a, example_pixel_b, example_pixel_c] (2023, example_mosaic3)
     = Inr \<lparr>count_year = 2023, count = 4, avgHeight = 60, avgFloors = 20, presence = Some 0.5\<rparr>"
  "analyzeMosaic 10 [example_pixel_c] (2023, example_mosaic3) = Inl (ParameterRequired ''left'')"
  using analyzeMosaic_eval [of example_mosaic3 example_presence3 example_height3
      "\<lambda>p. Some (1 / 100)" 10 "[example_pixel_a, example_pixel_b, example_pixel_c]" 2023]
    analyzeMosaic_eval [of example_mosaic3 example_presence3 example_height3
      "\<lambda>p. Some (1 / 100)" 10 "[example_pixel_c]" 2023]
  by (simp_all add: example_mosaic3_def example_values3 List.map_filter_simps ee_bind_def
      Number_multiply_def Let_def)

lemma example_mean3:
  "Dictionary_get (reduceRegion_mean example_mosaic3
      [example_pixel_a, example_pixel_b, example_pixel_c]) ''building_height'' = Inr (Some 52)"
  "sampleHeight box_geo example_mosaic3 example_pixel_c = Inr (Some 50)"
  by (simp_all add: Dictionary_get_def reduceRegion_mean_band example_mosaic3_def
      List.map_filter_simps example_values3 sampleHeight_def reduceRegion_first_def
      example_pixels_distinct)

section \<open>Floor count\<close>


section \<open>A height of zero\<close>

text \<open>
  C10.  A height that is present and equal to 0 gives a BGFA of 0; the one-floor
  fallback, BGFA = area, is taken only for a missing height, so for a non-zero area the
  two results differ.
\<close>

theorem calculateBGFA_zero_height:
  "calculateBGFA (Some 0) area = Inr 0
   \<and> calculateBGFA None area = Inr area
   \<and> (area \<noteq> 0 \<longrightarrow> calculateBGFA (Some 0) area \<noteq> calculateBGFA None area)"
  by (simp add: calculateBGFA_Some calculateBGFA_None)

theorem calculateBGFA_zero_height_witness:
  "(50::real) \<noteq> 0 \<and> calculateBGFA (Some 0) 50 = Inr 0 \<and> calculateBGFA None 50 = Inr 50
   \<and> calculateBGFA (Some 0) 50 \<noteq> calculateBGFA None 50"
  using calculateBGFA_zero_height [of 50] by simp

section \<open>Built-up gross floor area\<close>

text \<open>
  C2.  The BGFA is the area times the rounded-up floor count when the height is present
  and the area itself when the height is missing; either way \<open>calculateBGFA\<close> returns
  a value and never fails.  An area of 50 with a missing height gives 50; an area of 50
  with a height of 6 gives 100.  In every record derived by \<open>getHeightsAndArea\<close> and for
  every year of the range, \<open>area_m2\<close> is the footprint area and \<open>bgfa_<year>\<close> follows
  this formula from \<open>height_<year>\<close>.
\<close>

theorem bgfa_formula:
  "calculateBGFA (Some h) area = Inr (area * of_int \<lceil>h / 3\<rceil>)
   \<and> calculateBGFA None area = Inr area
   \<and> calculateBGFA None 50 = Inr 50
   \<and> calculateBGFA (Some 6) 50 = Inr 100
   \<and> (getHeightsAndArea G temporal region f = Inr r \<and> year \<in> set years \<longrightarrow>
        Feature_get r Area_m2 = Some (geo_area G (geometry f))
        \<and> Feature_get r (Bgfa_y year) =
            (case Feature_get r (Height_y year) of
               None \<Rightarrow> Some (geo_area G (geometry f))
             | Some height \<Rightarrow> Some (geo_area G (geometry f) * of_int \<lceil>height / 3\<rceil>)))"
proof -
  have "Feature_get r Area_m2 = Some (geo_area G (geometry f))
        \<and> Feature_get r (Bgfa_y year) =
            (case Feature_get r (Height_y year) of
               None \<Rightarrow> Some (geo_area G (geometry f))
             | Some height \<Rightarrow> Some (geo_area G (geometry f) * of_int \<lceil>height / 3\<rceil>))"
    if r: "getHeightsAndArea G temporal region f = Inr r" and y: "year \<in> set years"
  proof -
    from getHeightsAndArea_year [OF r y] obtain bg where
      bg: "calculateBGFA (Feature_get r (Height_y year)) (geo_area G (geometry f)) = Inr bg"
      and get: "Feature_get r (Bgfa_y year) = Some bg"
      by blast
    from bg get have "Feature_get r (Bgfa_y year) =
            (case Feature_get r (Height_y year) of
               None \<Rightarrow> Some (geo_area G (geometry f))
             | Some height \<Rightarrow> Some (geo_area G (geometry f) * of_int \<lceil>height / 3\<rceil>))"
      by (cases "Feature_get r (Height_y year)")
         (simp_all add: calculateBGFA_None calculateBGFA_Some)
    with getHeightsAndArea_base(5) [OF r] show ?thesis by simp
  qed
  then show ?thesis
    by (simp add: calculateBGFA_None calculateBGFA_Some)
qed

theorem bgfa_formula_witness:
  "getHeightsAndArea box_geo example_temporal puneRegion example_building = Inr example_record
   \<and> 2016 \<in> set years \<and> 2023 \<in> set years
   \<and> Feature_get example_record Area_m2 = Some 30
   \<and> Feature_get example_record (Height_y 2016) = None
   \<and> Feature_get example_record (Bgfa_y 2016) = Some 30
   \<and> Feature_get example_record (Height_y 2023) = Some 9
   \<and> Feature_get example_record (Bgfa_y 2023) = Some 90"
  using bgfa_formula [of 6 50 box_geo example_temporal puneRegion example_building
      example_record 2016]
    bgfa_formula [of 6 50 box_geo example_temporal puneRegion example_building
      example_record 2023]
    example_get
  by (simp add: years_def example_fields example_retained)

section \<open>Retention\<close>

text \<open>
  C3.  The validity filter keeps, in order, exactly the processed records for which some
  year of the range has a non-missing \<open>height_<year>\<close>, in geebuilding.js and in
  small\_pune.js alike.  The record of the example misses the height of seven of the eight
  years and is retained.
\<close>

theorem validBuildings_retention:
  "(processedBuildings G buildings temporal region = Inr processed \<longrightarrow>
      validBuildings G buildings temporal region =
        Inr (filter (\<lambda>r. \<exists>year\<in>set years. Feature_get r (Height_y year) \<noteq> None) processed))
   \<and> (processedBuildings_small G buildings temporal region = Inr processed_small \<longrightarrow>
      validBuildings_small G buildings temporal region =
        Inr (filter (\<lambda>r. \<exists>year\<in>set years. Feature_get r (Height_y year) \<noteq> None)
               processed_small))"
  by (simp add: validBuildings_filter validBuildings_small_filter)

theorem validBuildings_retention_witness:
  "processedBuildings box_geo example_buildings example_temporal puneRegion = Inr [example_record]
   \<and> validBuildings box_geo example_buildings example_temporal puneRegion = Inr [example_record]
   \<and> processedBuildings_small box_geo example_buildings example_temporal puneRegion
       = Inr [example_record_small]
   \<and> validBuildings_small box_geo example_buildings example_temporal puneRegion
       = Inr [example_record_small]
   \<and> map (\<lambda>year. Feature_get example_record (Height_y year)) years
       = [None, None, None, None, None, None, None, Some 9]"
  using validBuildings_retention [of box_geo example_buildings example_temporal puneRegion
      "[example_record]" "[example_record_small]"] example_processed
  by (simp add: years_def example_record_def example_record_small_def Feature_get_def)

section \<open>Confidence threshold\<close>

text \<open>
  C6.  In each of the three per-building scripts every processed record, and hence every
  valid record, is derived from an input building whose confidence is at least 0.7, and
  carries that confidence.
\<close>

theorem confidence_threshold:
  "(processedBuildings G buildings temporal region = Inr processed
      \<and> validBuildings G buildings temporal region = Inr valid \<longrightarrow>
      set valid \<subseteq> set processed
      \<and> (\<forall>r\<in>set processed. \<exists>b\<in>set buildings. \<exists>c.
            getHeightsAndArea G temporal region b = Inr r
            \<and> Feature_get b Confidence = Some c \<and> c \<ge> 0.7 \<and> Feature_get r Confidence = Some c))
   \<and> (processedBuildings_small G buildings temporal region = Inr processed_small
      \<and> validBuildings_small G buildings temporal region = Inr valid_small \<longrightarrow>
      set valid_small \<subseteq> set processed_small
      \<and> (\<forall>r\<in>set processed_small. \<exists>b\<in>set buildings. \<exists>c.
            getHeightsForAllYears G temporal region b = Inr r
            \<and> Feature_get b Confidence = Some c \<and> c \<ge> 0.7 \<and> Feature_get r Confidence = Some c))
   \<and> (processedBuildings_2023 G buildings temporal region = Inr processed_2023
      \<and> validBuildings_2023 G buildings temporal region = Inr valid_2023 \<longrightarrow>
      set valid_2023 \<subseteq> set processed_2023
      \<and> (\<forall>r\<in>set processed_2023. \<exists>b\<in>set buildings. \<exists>c.
            simplifyBuilding G temporal region b = Inr r
            \<and> Feature_get b Confidence = Some c \<and> c \<ge> 0.7 \<and> Feature_get r Confidence = Some c))"
proof (intro conjI impI)
  assume a: "processedBuildings G buildings temporal region = Inr processed
      \<and> validBuildings G buildings temporal region = Inr valid"
  then show "set valid \<subseteq> set processed"
    by (auto simp: validBuildings_filter)
  from a show "\<forall>r\<in>set processed. \<exists>b\<in>set buildings. \<exists>c.
            getHeightsAndArea G temporal region b = Inr r
            \<and> Feature_get b Confidence = Some c \<and> c \<ge> 0.7 \<and> Feature_get r Confidence = Some c"
    unfolding processedBuildings_def
    by (intro processed_confident [of _ G buildings region processed] getHeightsAndArea_base(4)) simp_all
next
  assume a: "processedBuildings_small G buildings temporal region = Inr processed_small
      \<and> validBuildings_small G buildings temporal region = Inr valid_small"
  then show "set valid_small \<subseteq> set processed_small"
    by (auto simp: validBuildings_small_filter)
  from a show "\<forall>r\<in>set processed_small. \<exists>b\<in>set buildings. \<exists>c.
            getHeightsForAllYears G temporal region b = Inr r
            \<and> Feature_get b Confidence = Some c \<and> c \<ge> 0.7 \<and> Feature_get r Confidence = Some c"
    unfolding processedBuildings_small_def
    by (intro processed_confident [of _ G buildings region processed_small] getHeightsForAllYears_base(4)) simp_all
next
  assume a: "processedBuildings_2023 G buildings temporal region = Inr processed_2023
      \<and> validBuildings_2023 G buildings temporal region = Inr valid_2023"
  then show "set valid_2023 \<subseteq> set processed_2023"
    by (auto simp: validBuildings_2023_filter)
  from a show "\<forall>r\<in>set processed_2023. \<exists>b\<in>set buildings. \<exists>c.
            simplifyBuilding G temporal region b = Inr r
            \<and> Feature_get b Confidence = Some c \<and> c \<ge> 0.7 \<and> Feature_get r Confidence = Some c"
    unfolding processedBuildings_2023_def
    by (intro processed_confident [of _ G buildings region processed_2023] simplifyBuilding_Inr(4)) simp_all
qed


theorem confidence_threshold_witness:
  "processedBuildings box_geo example_buildings example_temporal puneRegion = Inr [example_record]
   \<and> validBuildings box_geo example_buildings example_temporal puneRegion = Inr [example_record]
   \<and> processedBuildings_small box_geo example_buildings example_temporal puneRegion
       = Inr [example_record_small]
   \<and> validBuildings_small box_geo example_buildings example_temporal puneRegion
       = Inr [example_record_small]
   \<and> processedBuildings_2023 box_geo example_buildings example_temporal puneRegion
       = Inr [example_record_2023]
   \<and> validBuildings_2023 box_geo example_buildings example_temporal puneRegion
       = Inr [example_record_2023]
   \<and> example_building_low \<in> set example_buildings
   \<and> Feature_get example_building Confidence = Some 0.9
   \<and> Feature_get example_building_low Confidence = Some 0.5
   \<and> Feature_get example_record Confidence = Some 0.9
   \<and> Feature_get example_record_small Confidence = Some 0.9
   \<and> Feature_get example_record_2023 Confidence = Some 0.9"
  using confidence_threshold [of box_geo example_buildings example_temporal puneRegion
      "[example_record]" "[example_record]" "[example_record_small]" "[example_record_small]"
      "[example_record_2023]" "[example_record_2023]"]
    example_processed example_valid
  by (simp add: example_fields example_low)

section \<open>Centroids of the records\<close>

text \<open>
  C7, as stated, fails.  The bounds filter keeps every building whose footprint meets the
  region, so a processed record can have its centroid outside the bounding box
  (longitude 73.8601 against \<open>maxLon\<close> 73.86).  A valid (exported) record can lie
  outside it too: the height is sampled from the 10 m pixel that contains the centroid,
  and the clip keeps a pixel whose centre is inside the region (longitude 73.86004).
\<close>

theorem record_outside_region:
  "processedBuildings box_geo [example_building_edge] example_temporal puneRegion
     = Inr [example_record_edge]
   \<and> Feature_get example_record_edge Longitude = Some 73.8601
   \<and> \<not> inside puneRegion (geometry example_record_edge)
   \<and> validBuildings box_geo [example_building_boundary] example_temporal puneRegion
       = Inr [example_record_boundary]
   \<and> Feature_get example_record_boundary Longitude = Some 73.86004
   \<and> maxLon puneRegion = 73.86
   \<and> \<not> inside puneRegion (geometry example_record_boundary)"
  using example_edge_processed example_boundary_valid example_edge_outside by simp

text \<open>
  C7, amended.  In each of the three per-building scripts, for every valid (exported)
  record the longitude and latitude properties are the coordinates of the centroid, and
  the centre of the 10 m pixel that contains the centroid lies inside the region's
  bounding box.  The centroid itself can lie outside the box, and so can the centroid of
  a processed record, which the validity filter then drops when it has no height.
\<close>

theorem centroid_pixel_in_region:
  "(validBuildings G buildings temporal region = Inr valid \<longrightarrow>
      (\<forall>r\<in>set valid. inside region (geo_pixel G 10 (geometry r))
          \<and> Feature_get r Longitude = Some (fst (geometry r))
          \<and> Feature_get r Latitude = Some (snd (geometry r))))
   \<and> (validBuildings_small G buildings temporal region = Inr valid_small \<longrightarrow>
      (\<forall>r\<in>set valid_small. inside region (geo_pixel G 10 (geometry r))
          \<and> Feature_get r Longitude = Some (fst (geometry r))
          \<and> Feature_get r Latitude = Some (snd (geometry r))))
   \<and> (validBuildings_2023 G buildings temporal region = Inr valid_2023 \<longrightarrow>
      (\<forall>r\<in>set valid_2023. inside region (geo_pixel G 10 (geometry r))
          \<and> Feature_get r Longitude = Some (fst (geometry r))
          \<and> Feature_get r Latitude = Some (snd (geometry r))))
   \<and> validBuildings box_geo [example_building_boundary] example_temporal puneRegion
       = Inr [example_record_boundary]
   \<and> \<not> inside puneRegion (geometry example_record_boundary)
   \<and> processedBuildings box_geo [example_building_edge] example_temporal puneRegion
       = Inr [example_record_edge]
   \<and> \<not> inside puneRegion (geometry example_record_edge)
   \<and> validBuildings box_geo [example_building_edge] example_temporal puneRegion = Inr []"
proof -
  have main: "inside region (geo_pixel G 10 (geometry r)) \<and> Feature_get r Longitude = Some (fst (geometry r)) \<and> Feature_get r Latitude = Some (snd (geometry r))"
    if "validBuildings G buildings temporal region = Inr valid" "r \<in> set valid" for r
  proof -
    from that obtain processed year where
      p: "processedBuildings G buildings temporal region = Inr processed" "r \<in> set processed"
      and y: "year \<in> set years" "Feature_get r (Height_y year) \<noteq> None"
      by (auto dest!: validBuildings_Inr)
    from p obtain b where "getHeightsAndArea G temporal region b = Inr r"
      unfolding processedBuildings_def by (blast dest: traverse_source)
    then show ?thesis
      using y by (rule getHeightsAndArea_inside)
  qed
  have small: "inside region (geo_pixel G 10 (geometry r)) \<and> Feature_get r Longitude = Some (fst (geometry r)) \<and> Feature_get r Latitude = Some (snd (geometry r))"
    if "validBuildings_small G buildings temporal region = Inr valid_small"
      "r \<in> set valid_small" for r
  proof -
    from that obtain processed year where
      p: "processedBuildings_small G buildings temporal region = Inr processed"
        "r \<in> set processed"
      and y: "year \<in> set years" "Feature_get r (Height_y year) \<noteq> None"
      by (auto dest!: validBuildings_small_Inr)
    from p obtain b where "getHeightsForAllYears G temporal region b = Inr r"
      unfolding processedBuildings_small_def by (blast dest: traverse_source)
    then show ?thesis
      using y by (rule getHeightsForAllYears_inside)
  qed
  have single: "inside region (geo_pixel G 10 (geometry r)) \<and> Feature_get r Longitude = Some (fst (geometry r)) \<and> Feature_get r Latitude = Some (snd (geometry r))"
    if "validBuildings_2023 G buildings temporal region = Inr valid_2023"
      "r \<in> set valid_2023" for r
  proof -
    from that obtain processed where
      p: "processedBuildings_2023 G buildings temporal region = Inr processed"
        "r \<in> set processed"
      and y: "Feature_get r Height \<noteq> None"
      by (auto dest!: validBuildings_2023_Inr)
    from p obtain b where "simplifyBuilding G temporal region b = Inr r"
      unfolding processedBuildings_2023_def by (blast dest: traverse_source)
    then show ?thesis
      using y by (rule simplifyBuilding_inside)
  qed
  from main small single example_boundary_valid example_edge_processed show ?thesis
    by blast
qed

theorem centroid_pixel_in_region_witness:
  "validBuildings box_geo example_buildings example_temporal puneRegion = Inr [example_record]
   \<and> validBuildings_small box_geo example_buildings example_temporal puneRegion
       = Inr [example_record_small]
   \<and> validBuildings_2023 box_geo example_buildings example_temporal puneRegion
       = Inr [example_record_2023]
   \<and> inside puneRegion (geo_pixel box_geo 10 (geometry example_record))
   \<and> inside puneRegion (geo_pixel box_geo 10 (geometry example_record_small))
   \<and> inside puneRegion (geo_pixel box_geo 10 (geometry example_record_2023))
   \<and> Feature_get example_record Longitude = Some 73.855
   \<and> Feature_get example_record Latitude = Some 18.525"
  using centroid_pixel_in_region [of box_geo example_buildings example_temporal puneRegion
      "[example_record]" "[example_record_small]" "[example_record_2023]"]
    example_valid
  by (simp add: example_record_def Feature_get_def)

section \<open>The height image of a year\<close>

text \<open>
  C5.  For every year the resolver keeps the scenes whose \<open>inference_time_epoch_s\<close>
  equals the epoch of June 30 of that year, 00:00 at seven hours behind UTC (the listed
  milliseconds for 2016 to 2023), then those whose footprint meets the region; it
  mosaics them, clips the mosaic to the region and selects \<open>building_height\<close>.  When
  a scene remains and the first one has the band, the result is the single band whose
  value at a point inside the region is that of the last remaining scene unmasked there,
  and which has no value outside the region.
\<close>

theorem getHeightImageForYear_surface:
  "getHeightImageForYear G temporal region year =
     Image_select ''building_height''
       (Image_clip region
         (mosaic (map bands
           (filterBounds G region
             (Collection_filter
               (Filter_eq Inference_time_epoch_s (real_of_int (Date_millis year) / 1000))
               temporal)))))
   \<and> map Date_millis years =
     [1467270000000, 1498806000000, 1530342000000, 1561878000000,
      1593500400000, 1625036400000, 1656572400000, 1688108400000]
   \<and> (filterBounds G region
         (Collection_filter (Filter_eq Inference_time_epoch_s (real_of_int (Date_millis year) / 1000))
            temporal) =
        filter (\<lambda>s. geo_intersects G (geometry s) region)
          (filter (\<lambda>s. Feature_get s Inference_time_epoch_s
                          = Some (real_of_int (Date_millis year) / 1000)) temporal))
   \<and> (filterBounds G region
         (Collection_filter (Filter_eq Inference_time_epoch_s (real_of_int (Date_millis year) / 1000))
            temporal) = first # rest
       \<and> map_of (bands first) ''building_height'' \<noteq> None \<longrightarrow>
       (\<exists>b. getHeightImageForYear G temporal region year = Inr [(''building_height'', b)]
          \<and> (\<forall>p. b p =
                (if inside region p
                 then (case filter (\<lambda>v. v \<noteq> None)
                              (map (\<lambda>s. band_at (bands s) ''building_height'' p) (first # rest)) of
                         [] \<Rightarrow> None
                       | v # vs \<Rightarrow> last (v # vs))
                 else None))))"
proof -
  let ?epoch = "real_of_int (Date_millis year) / 1000"
  let ?matching = "filterBounds G region
         (Collection_filter (Filter_eq Inference_time_epoch_s ?epoch) temporal)"
  have dates: "map Date_millis years =
     [1467270000000, 1498806000000, 1530342000000, 1561878000000,
      1593500400000, 1625036400000, 1656572400000, 1688108400000]"
    by (simp add: years_def Date_millis_years)
  have "(\<lambda>s::'a scene. matches (Filter_eq Inference_time_epoch_s ?epoch) (Feature_get s))
        = (\<lambda>s. Feature_get s Inference_time_epoch_s = Some ?epoch)"
    by (auto split: option.splits)
  then have sel: "?matching = filter (\<lambda>s. geo_intersects G (geometry s) region)
          (filter (\<lambda>s. Feature_get s Inference_time_epoch_s = Some ?epoch) temporal)"
    by (simp only: filterBounds_def Collection_filter_def)
  have img: "\<exists>b. getHeightImageForYear G temporal region year = Inr [(''building_height'', b)]
          \<and> (\<forall>p. b p =
                (if inside region p
                 then (case filter (\<lambda>v. v \<noteq> None)
                              (map (\<lambda>s. band_at (bands s) ''building_height'' p) (first # rest)) of
                         [] \<Rightarrow> None
                       | v # vs \<Rightarrow> last (v # vs))
                 else None))"
    if m: "?matching = first # rest" and b0: "map_of (bands first) ''building_height'' \<noteq> None"
  proof -
    from b0 obtain b0' where b0': "map_of (bands first) ''building_height'' = Some b0'"
      by blast
    have "getHeightImageForYear G temporal region year =
          Image_select ''building_height''
            (Image_clip region (mosaic (bands first # map bands rest)))"
      using m by (simp add: getHeightImageForYear_def)
    also have "\<dots> = Inr [(''building_height'', \<lambda>p. if inside region p
                  then last_valid (map (\<lambda>s. band_at (bands s) ''building_height'' p)
                                     (first # rest))
                  else None)]"
      by (simp add: Image_select_def clip_band_eq mosaic_band b0' comp_def
          del: last_valid.simps cong: if_cong)
    finally show ?thesis
      by (simp only: last_valid_filter) blast
  qed
  have chain: "getHeightImageForYear G temporal region year =
     Image_select ''building_height'' (Image_clip region (mosaic (map bands ?matching)))"
    by (simp add: getHeightImageForYear_def)
  from chain dates sel img show ?thesis
    by blast
qed

theorem getHeightImageForYear_surface_witness:
  "filterBounds box_geo puneRegion
     (Collection_filter (Filter_eq Inference_time_epoch_s (real_of_int (Date_millis 2023) / 1000))
        example_temporal) = [example_scene 1688108400 (Some 9)]
   \<and> map_of (bands (example_scene 1688108400 (Some 9))) ''building_height'' \<noteq> None
   \<and> getHeightImageForYear box_geo example_temporal puneRegion 2023 = Inr (example_image (Some 9))
   \<and> sampleHeight box_geo (example_image (Some 9)) example_centroid = Inr (Some 9)
   \<and> sampleHeight box_geo (example_image (Some 9)) example_centroid_edge = Inr None"
proof -
  have "map_of (bands (example_scene 1688108400 (Some 9))) ''building_height'' \<noteq> None"
    by (simp add: example_scene_def)
  with getHeightImageForYear_surface [of box_geo example_temporal puneRegion 2023
      "example_scene 1688108400 (Some 9)" "[]"] example_matching_2023
  show ?thesis
    by (simp add: example_getHeightImageForYear example_sample example_pixels example_inside)
qed

section \<open>Missing heights\<close>

text \<open>
  C4, as stated, fails when no scene matches a year's timestamp: without the scene of
  2016 the image of 2016 has no band to select, and the whole run fails, in
  geebuilding.js and in small\_pune.js.
\<close>

theorem missing_scene_aborts:
  "getHeightImageForYear box_geo example_temporal_gap puneRegion 2016
     = Inl (BandNotFound ''building_height'')
   \<and> processedBuildings box_geo example_buildings example_temporal_gap puneRegion
     = Inl (BandNotFound ''building_height'')
   \<and> validBuildings box_geo example_buildings example_temporal_gap puneRegion
     = Inl (BandNotFound ''building_height'')
   \<and> processedBuildings_small box_geo example_buildings example_temporal_gap puneRegion
     = Inl (BandNotFound ''building_height'')
   \<and> validBuildings_small box_geo example_buildings example_temporal_gap puneRegion
     = Inl (BandNotFound ''building_height'')"
  by (simp add: example_gap_2016 processedBuildings_def validBuildings_def
      processedBuildings_small_def validBuildings_small_def example_filtered
      example_gap_building ee_bind_def)

text \<open>
  C4, amended.  When the height image of every year of the range can be built, every
  building yields a record and the whole collection is processed without failure, in
  geebuilding.js and in small\_pune.js.  In such a record \<open>height_<year>\<close> is the value
  of the year's image at the pixel of the centroid, missing where the image has no value
  there (not zero), and a missing height gives \<open>bgfa_<year>\<close> the footprint area.  When
  no scene matches a year's timestamp and the region, the year's image cannot be built.
  When a year's image cannot be built, deriving the record of any building fails, and the
  run fails if at least one building passes the bounds and confidence filters; when no
  building passes them, the run yields the empty collection.
\<close>

theorem missing_height_propagates:
  "((\<forall>year\<in>set years. \<exists>img. getHeightImageForYear G temporal region year = Inr img) \<longrightarrow>
      (\<exists>r. getHeightsAndArea G temporal region f = Inr r)
      \<and> (\<exists>r. getHeightsForAllYears G temporal region f = Inr r)
      \<and> (\<exists>processed. processedBuildings G buildings temporal region = Inr processed)
      \<and> (\<exists>processed. processedBuildings_small G buildings temporal region = Inr processed))
   \<and> (getHeightsAndArea G temporal region f = Inr r \<and> year \<in> set years
       \<and> getHeightImageForYear G temporal region year = Inr img \<longrightarrow>
       Feature_get r (Height_y year)
         = band_at img ''building_height'' (geo_pixel G 10 (geo_centroid G (geometry f)))
       \<and> (Feature_get r (Height_y year) = None \<longrightarrow>
            Feature_get r (Bgfa_y year) = Some (geo_area G (geometry f))))
   \<and> (getHeightsForAllYears G temporal region f = Inr r_small \<and> year \<in> set years
       \<and> getHeightImageForYear G temporal region year = Inr img \<longrightarrow>
       Feature_get r_small (Height_y year)
         = band_at img ''building_height'' (geo_pixel G 10 (geo_centroid G (geometry f))))
   \<and> (filterBounds G region (Collection_filter
          (Filter_eq Inference_time_epoch_s (real_of_int (Date_millis year) / 1000)) temporal) = []
       \<longrightarrow> getHeightImageForYear G temporal region year = Inl (BandNotFound ''building_height''))
   \<and> (year \<in> set years \<and> getHeightImageForYear G temporal region year = Inl e \<longrightarrow>
       (\<exists>e'. getHeightsAndArea G temporal region f = Inl e')
       \<and> (\<exists>e'. getHeightsForAllYears G temporal region f = Inl e')
       \<and> (filteredBuildings G buildings region \<noteq> [] \<longrightarrow>
            (\<exists>e'. processedBuildings G buildings temporal region = Inl e'
                \<and> validBuildings G buildings temporal region = Inl e')
            \<and> (\<exists>e'. processedBuildings_small G buildings temporal region = Inl e'
                \<and> validBuildings_small G buildings temporal region = Inl e')))
   \<and> (filteredBuildings G buildings region = [] \<longrightarrow>
       processedBuildings G buildings temporal region = Inr []
       \<and> validBuildings G buildings temporal region = Inr []
       \<and> processedBuildings_small G buildings temporal region = Inr []
       \<and> validBuildings_small G buildings temporal region = Inr [])"
proof -
  have total: "(\<exists>r. getHeightsAndArea G temporal region f = Inr r)
      \<and> (\<exists>r. getHeightsForAllYears G temporal region f = Inr r)
      \<and> (\<exists>processed. processedBuildings G buildings temporal region = Inr processed)
      \<and> (\<exists>processed. processedBuildings_small G buildings temporal region = Inr processed)"
    if a: "\<forall>year\<in>set years. \<exists>img. getHeightImageForYear G temporal region year = Inr img"
  proof -
    have "\<exists>processed. processedBuildings G buildings temporal region = Inr processed"
      unfolding processedBuildings_def
      by (rule traverse_total) (rule getHeightsAndArea_total [OF a])
    moreover have "\<exists>processed. processedBuildings_small G buildings temporal region = Inr processed"
      unfolding processedBuildings_small_def
      by (rule traverse_total) (rule getHeightsForAllYears_total [OF a])
    ultimately show ?thesis
      using getHeightsAndArea_total [OF a] getHeightsForAllYears_total [OF a] by blast
  qed
  have main: "Feature_get r (Height_y year)
         = band_at img ''building_height'' (geo_pixel G 10 (geo_centroid G (geometry f)))
       \<and> (Feature_get r (Height_y year) = None \<longrightarrow>
            Feature_get r (Bgfa_y year) = Some (geo_area G (geometry f)))"
    if r: "getHeightsAndArea G temporal region f = Inr r" and y: "year \<in> set years"
      and img: "getHeightImageForYear G temporal region year = Inr img"
  proof -
    from getHeightsAndArea_year [OF r y] img obtain bg where
      "sampleHeight G img (geo_centroid G (geometry f)) = Inr (Feature_get r (Height_y year))"
      "calculateBGFA (Feature_get r (Height_y year)) (geo_area G (geometry f)) = Inr bg"
      "Feature_get r (Bgfa_y year) = Some bg"
      by auto
    then show ?thesis
      by (auto simp: sampleHeight_resolved [OF img] calculateBGFA_None)
  qed
  have small: "Feature_get r_small (Height_y year)
         = band_at img ''building_height'' (geo_pixel G 10 (geo_centroid G (geometry f)))"
    if r: "getHeightsForAllYears G temporal region f = Inr r_small" and y: "year \<in> set years"
      and img: "getHeightImageForYear G temporal region year = Inr img"
  proof -
    from getHeightsForAllYears_year [OF r y] img have
      "sampleHeight G img (geo_centroid G (geometry f))
         = Inr (Feature_get r_small (Height_y year))"
      by auto
    then show ?thesis
      by (simp add: sampleHeight_resolved [OF img])
  qed
  have fails: "(\<exists>e'. getHeightsAndArea G temporal region f = Inl e')
       \<and> (\<exists>e'. getHeightsForAllYears G temporal region f = Inl e')
       \<and> (filteredBuildings G buildings region \<noteq> [] \<longrightarrow>
            (\<exists>e'. processedBuildings G buildings temporal region = Inl e'
                \<and> validBuildings G buildings temporal region = Inl e')
            \<and> (\<exists>e'. processedBuildings_small G buildings temporal region = Inl e'
                \<and> validBuildings_small G buildings temporal region = Inl e'))"
    if "year \<in> set years" "getHeightImageForYear G temporal region year = Inl e"
    using getHeightsAndArea_fails [OF that] getHeightsForAllYears_fails [OF that]
      run_fails [OF that] by blast
  from total main small fails no_scene_no_image [of G region year temporal]
    run_empty [of G buildings region temporal]
  show ?thesis
    by blast
qed

theorem missing_height_propagates_witness:
  "map (getHeightImageForYear box_geo example_temporal puneRegion) years
     = [Inr (example_image None), Inr (example_image None), Inr (example_image None),
        Inr (example_image None), Inr (example_image None), Inr (example_image None),
        Inr (example_image None), Inr (example_image (Some 9))]
   \<and> getHeightsAndArea box_geo example_temporal puneRegion example_building = Inr example_record
   \<and> getHeightsForAllYears box_geo example_temporal puneRegion example_building
       = Inr example_record_small
   \<and> processedBuildings box_geo example_buildings example_temporal puneRegion
       = Inr [example_record]
   \<and> 2016 \<in> set years
   \<and> Feature_get example_record (Height_y 2016) = None
   \<and> Feature_get example_record (Bgfa_y 2016) = Some 30
   \<and> Feature_get example_record_small (Height_y 2016) = None
   \<and> filterBounds box_geo puneRegion
        (Collection_filter
           (Filter_eq Inference_time_epoch_s (real_of_int (Date_millis 2016) / 1000))
           example_temporal_gap) = []
   \<and> getHeightImageForYear box_geo example_temporal_gap puneRegion 2016
       = Inl (BandNotFound ''building_height'')
   \<and> filteredBuildings box_geo example_buildings puneRegion = [example_building]
   \<and> processedBuildings box_geo example_buildings example_temporal_gap puneRegion
       = Inl (BandNotFound ''building_height'')
   \<and> filteredBuildings box_geo [example_building_low] puneRegion = []
   \<and> processedBuildings box_geo [example_building_low] example_temporal_gap puneRegion = Inr []
   \<and> validBuildings box_geo [example_building_low] example_temporal_gap puneRegion = Inr []"
proof -
  have imgs: "map (getHeightImageForYear box_geo example_temporal puneRegion) years
     = [Inr (example_image None), Inr (example_image None), Inr (example_image None),
        Inr (example_image None), Inr (example_image None), Inr (example_image None),
        Inr (example_image None), Inr (example_image (Some 9))]"
    by (simp add: years_def example_getHeightImageForYear)
  have all: "\<forall>year\<in>set years. \<exists>img.
               getHeightImageForYear box_geo example_temporal puneRegion year = Inr img"
    by (simp add: years_def example_getHeightImageForYear)
  have small: "Feature_get example_record_small (Height_y 2016) = None"
    by (simp add: example_record_small_def Feature_get_def)
  have y: "2016 \<in> set years"
    by (simp add: years_def)
  have gap: "processedBuildings box_geo example_buildings example_temporal_gap puneRegion
       = Inl (BandNotFound ''building_height'')"
    by (simp add: processedBuildings_def example_filtered example_gap_building ee_bind_def)
  note pos = missing_height_propagates [of box_geo example_temporal puneRegion example_building
      example_buildings example_record 2016 "example_image None" example_record_small
      "BandNotFound ''building_height''"]
  note neg = missing_height_propagates [of box_geo example_temporal_gap puneRegion
      example_building example_buildings example_record 2016 "example_image None"
      example_record_small "BandNotFound ''building_height''"]
  note emp = missing_height_propagates [of box_geo example_temporal_gap puneRegion
      example_building "[example_building_low]" example_record 2016 "example_image None"
      example_record_small "BandNotFound ''building_height''"]
  from emp example_filtered_low have
    "processedBuildings box_geo [example_building_low] example_temporal_gap puneRegion = Inr []
     \<and> validBuildings box_geo [example_building_low] example_temporal_gap puneRegion = Inr []"
    by blast
  with pos neg all imgs small y gap example_get example_getSmall example_processed(1)
    example_gap_matching example_gap_2016 example_filtered example_filtered_low
  show ?thesis
    by (simp add: example_fields)
qed

section \<open>Populations of the yearly statistics\<close>

text \<open>
  C8, amended.  For every year the printed count and the height and BGFA statistics
  (count, mean, minimum, maximum) are computed over the retained records whose
  \<open>height_<year>\<close> is non-missing, a sub-list of the retained records whose length can
  differ between years; the height histogram of small\_pune.js is computed over the same
  records.  The BGFA histogram of geebuilding.js is computed over the retained records
  whose \<open>bgfa_<year>\<close> is non-missing, which for the records the script derives is every
  retained record.
\<close>

theorem yearly_populations:
  "nonNullBuildings year valid = filter (\<lambda>r. Feature_get r (Height_y year) \<noteq> None) valid
   \<and> length (nonNullBuildings year valid) \<le> length valid
   \<and> yearReport valid year =
       \<lparr>report_year = year,
        buildings_with_height_data = length (nonNullBuildings year valid),
        height_statistics = aggregate_stats (Height_y year) (nonNullBuildings year valid),
        bgfa_statistics = aggregate_stats (Bgfa_y year) (nonNullBuildings year valid)\<rparr>
   \<and> valid_count (height_statistics (yearReport valid year))
       = length (nonNullBuildings year valid)
   \<and> yearReport_small valid year =
       \<lparr>report_year_small = year,
        buildings_with_height_data_small = length (nonNullBuildings year valid),
        height_statistics_small = aggregate_stats (Height_y year) (nonNullBuildings year valid)\<rparr>
   \<and> hist_features (histogramData valid year) = nonNullBuildings year valid
   \<and> hist_features (bgfaChart valid year)
       = filter (\<lambda>r. Feature_get r (Bgfa_y year) \<noteq> None) valid
   \<and> (validBuildings G buildings temporal region = Inr valid \<and> year \<in> set years \<longrightarrow>
        hist_features (bgfaChart valid year) = valid)
   \<and> length (nonNullBuildings 2016 [example_record])
       \<noteq> length (nonNullBuildings 2023 [example_record])"
proof -
  have nn: "nonNullBuildings year valid
            = filter (\<lambda>r. Feature_get r (Height_y year) \<noteq> None) valid"
    by (simp add: nonNullBuildings_def notNull_single del: matches.simps)
  then have le: "length (nonNullBuildings year valid) \<le> length valid"
    by simp
  have rep: "yearReport valid year =
       \<lparr>report_year = year,
        buildings_with_height_data = length (nonNullBuildings year valid),
        height_statistics = aggregate_stats (Height_y year) (nonNullBuildings year valid),
        bgfa_statistics = aggregate_stats (Bgfa_y year) (nonNullBuildings year valid)\<rparr>"
    by (simp add: yearReport_def Let_def)
  have "\<forall>r\<in>set (nonNullBuildings year valid). Feature_get r (Height_y year) \<noteq> None"
    by (simp add: nn)
  then have cnt: "valid_count (height_statistics (yearReport valid year))
       = length (nonNullBuildings year valid)"
    by (simp add: rep aggregate_stats_def Let_def map_filter_all_length)
  have rep_small: "yearReport_small valid year =
       \<lparr>report_year_small = year,
        buildings_with_height_data_small = length (nonNullBuildings year valid),
        height_statistics_small = aggregate_stats (Height_y year) (nonNullBuildings year valid)\<rparr>"
    by (simp add: yearReport_small_def Let_def)
  have hist: "hist_features (histogramData valid year) = nonNullBuildings year valid"
    by (simp add: histogramData_def nonNullBuildings_def)
  have chart: "hist_features (bgfaChart valid year)
       = filter (\<lambda>r. Feature_get r (Bgfa_y year) \<noteq> None) valid"
    by (simp add: bgfaChart_def notNull_single del: matches.simps)
  have all: "hist_features (bgfaChart valid year) = valid"
    if "validBuildings G buildings temporal region = Inr valid" "year \<in> set years"
    using valid_has_bgfa [OF that] by (simp add: chart filter_id_conv)
  have differ: "length (nonNullBuildings 2016 [example_record])
       \<noteq> length (nonNullBuildings 2023 [example_record])"
    by (simp add: nonNullBuildings_def notNull_single example_fields example_retained
        del: matches.simps)
  from nn le rep cnt rep_small hist chart all differ show ?thesis
    by blast
qed

theorem yearly_populations_witness:
  "validBuildings box_geo example_buildings example_temporal puneRegion = Inr [example_record]
   \<and> 2016 \<in> set years
   \<and> nonNullBuildings 2016 [example_record] = []
   \<and> nonNullBuildings 2023 [example_record] = [example_record]
   \<and> hist_features (bgfaChart [example_record] 2016) = [example_record]"
  using yearly_populations [of 2016 "[example_record]" box_geo example_buildings
      example_temporal puneRegion]
    yearly_populations [of 2023 "[example_record]" box_geo example_buildings
      example_temporal puneRegion]
    example_valid(1)
  by (simp add: years_def example_fields example_retained)

text \<open>
  C8, as stated, fails for the BGFA histogram: the retained record of the example has no
  height for 2016, so it is outside the population of the 2016 statistics, and it is in
  the features of the 2016 BGFA histogram.
\<close>

theorem bgfa_histogram_population:
  "validBuildings box_geo example_buildings example_temporal puneRegion = Inr [example_record]
   \<and> Feature_get example_record (Height_y 2016) = None
   \<and> nonNullBuildings 2016 [example_record] = []
   \<and> hist_property (bgfaChart [example_record] 2016) = Bgfa_y 2016
   \<and> hist_features (bgfaChart [example_record] 2016) = [example_record]"
  by (simp add: example_valid example_fields nonNullBuildings_def bgfaChart_def notNull_single
      del: matches.simps)

section \<open>Height units of the two variants\<close>

text \<open>
  C9, as stated, fails.  The area analysis averages only the pixels whose building
  presence exceeds 0.2: over three pixels with presence 0.2, 0.5, 0.1 and heights 100, 6,
  50 it reports 60, where the regional mean of the band is 52.  On the pixel with
  presence 0.1 it has no result, where the point sample of the per-building scripts
  is 50.
\<close>

theorem area_height_not_regional_mean:
  "analyzeMosaic 10 [example_pixel_a, example_pixel_b, example_pixel_c] (2023, example_mosaic3)
     = Inr \<lparr>count_year = 2023, count = 4, avgHeight = 60, avgFloors = 20, presence = Some 0.5\<rparr>
   \<and> Dictionary_get (reduceRegion_mean example_mosaic3
         [example_pixel_a, example_pixel_b, example_pixel_c]) ''building_height'' = Inr (Some 52)
   \<and> analyzeMosaic 10 [example_pixel_c] (2023, example_mosaic3)
       = Inl (ParameterRequired ''left'')
   \<and> sampleHeight box_geo example_mosaic3 example_pixel_c = Inr (Some 50)"
  using example_analyze3 example_mean3 by simp

text \<open>
  C9, amended.  The area analysis yields one result per year from 2016 to 2023, each from
  the mosaic of the scenes with that year's epoch.  For a year it reports as average
  height ten times the mean of \<open>building_height\<close> over the pixels of the area whose
  \<open>building_presence\<close> exceeds 0.2, of which there must be at least one, and as average
  floors that scaled height divided by 3, with no rounding.  The per-building scripts
  store the value of the pixel of the centroid unscaled.  For one pixel with building
  presence above 0.2 and height \<open>v\<close>, the area analysis of that pixel reports
  \<open>10 * v\<close> where the point sample of the same image is \<open>v\<close>.
\<close>

theorem area_analysis_height:
  "(analyzeBuildings imageCollection scale aoi = Inr counts \<longrightarrow>
      list_all2 (\<lambda>ym r. analyzeMosaic scale aoi ym = Inr r) (annualMosaics imageCollection) counts
      \<and> map count_year counts = [2016, 2017, 2018, 2019, 2020, 2021, 2022, 2023])
   \<and> annualMosaics imageCollection =
       map (\<lambda>year. (year, mosaic (map bands
              (filter (\<lambda>s. Feature_get s Inference_time_epoch_s
                              = Some (real_of_int (Date_millis year) / 1000)) imageCollection))))
         [2016, 2017, 2018, 2019, 2020, 2021, 2022, 2023]
   \<and> (analyzeMosaic scale aoi (year, m) = Inr r \<longrightarrow>
       count_year r = year \<and> avgFloors r = avgHeight r / 3
       \<and> (let hs = List.map_filter
                      (\<lambda>p. case band_at m ''building_presence'' p of
                              None \<Rightarrow> None
                            | Some w \<Rightarrow> if w > 0.2 then band_at m ''building_height'' p else None)
                      aoi
          in hs \<noteq> [] \<and> avgHeight r = 10 * (sum_list hs / real (length hs))))
   \<and> (band_at m ''building_presence'' p = Some w \<and> w > 0.2
       \<and> band_at m ''building_height'' p = Some v
       \<and> band_at m ''building_fractional_count'' p = Some c \<and> geo_pixel G 10 q = p \<longrightarrow>
       (\<exists>r1. analyzeMosaic scale [p] (year, m) = Inr r1
          \<and> avgHeight r1 = 10 * v \<and> avgFloors r1 = 10 * v / 3)
       \<and> sampleHeight G m q = Inr (Some v))
   \<and> (getHeightsAndArea G temporal region f = Inr rec \<and> y \<in> set years
       \<and> getHeightImageForYear G temporal region y = Inr img \<longrightarrow>
       Feature_get rec (Height_y y)
         = band_at img ''building_height'' (geo_pixel G 10 (geo_centroid G (geometry f))))"
proof -
  have pix: "(\<exists>r1. analyzeMosaic scale [p] (year, m) = Inr r1
          \<and> avgHeight r1 = 10 * v \<and> avgFloors r1 = 10 * v / 3)
       \<and> sampleHeight G m q = Inr (Some v)"
    if a: "band_at m ''building_presence'' p = Some w \<and> w > 0.2
       \<and> band_at m ''building_height'' p = Some v
       \<and> band_at m ''building_fractional_count'' p = Some c \<and> geo_pixel G 10 q = p"
  proof -
    from a obtain b where "map_of m ''building_height'' = Some b" "b p = Some v"
      by (blast dest: band_at_Some)
    with a have "sampleHeight G m q = Inr (Some v)"
      by (simp add: sampleHeight_map_of)
    with a analyzeMosaic_pixel [of m p w v c scale year] show ?thesis
      by simp
  qed
  from analyzeBuildings_Inr [of imageCollection scale aoi counts]
    annualMosaics_eq [of imageCollection] analyzeMosaic_mean [of scale aoi year m r] pix
    getHeightsAndArea_height [of G temporal region f rec y img]
  show ?thesis
    by blast
qed

theorem area_analysis_height_witness:
  "analyzeBuildings example_temporal_built 10 [example_centroid] =
     Inr [\<lparr>count_year = 2016, count = 4, avgHeight = 30, avgFloors = 10, presence = Some 1\<rparr>,
          \<lparr>count_year = 2017, count = 4, avgHeight = 30, avgFloors = 10, presence = Some 1\<rparr>,
          \<lparr>count_year = 2018, count = 4, avgHeight = 30, avgFloors = 10, presence = Some 1\<rparr>,
          \<lparr>count_year = 2019, count = 4, avgHeight = 30, avgFloors = 10, presence = Some 1\<rparr>,
          \<lparr>count_year = 2020, count = 4, avgHeight = 30, avgFloors = 10, presence = Some 1\<rparr>,
          \<lparr>count_year = 2021, count = 4, avgHeight = 30, avgFloors = 10, presence = Some 1\<rparr>,
          \<lparr>count_year = 2022, count = 4, avgHeight = 30, avgFloors = 10, presence = Some 1\<rparr>,
          \<lparr>count_year = 2023, count = 4, avgHeight = 90, avgFloors = 30, presence = Some 1\<rparr>]
   \<and> analyzeMosaic 10 [example_centroid]
         (2023, mosaic [bands (example_scene 1688108400 (Some 9))])
       = Inr \<lparr>count_year = 2023, count = 4, avgHeight = 90, avgFloors = 30, presence = Some 1\<rparr>
   \<and> band_at (mosaic [bands (example_scene 1688108400 (Some 9))]) ''building_presence''
         example_centroid = Some 1
   \<and> (1::real) > 0.2
   \<and> band_at (mosaic [bands (example_scene 1688108400 (Some 9))]) ''building_height''
         example_centroid = Some 9
   \<and> band_at (mosaic [bands (example_scene 1688108400 (Some 9))]) ''building_fractional_count''
         example_centroid = Some (1 / 100)
   \<and> geo_pixel box_geo 10 example_centroid = example_centroid
   \<and> sampleHeight box_geo (mosaic [bands (example_scene 1688108400 (Some 9))]) example_centroid
       = Inr (Some 9)
   \<and> getHeightsAndArea box_geo example_temporal puneRegion example_building = Inr example_record
   \<and> 2023 \<in> set years
   \<and> getHeightImageForYear box_geo example_temporal puneRegion 2023
       = Inr (example_image (Some 9))
   \<and> Feature_get example_record (Height_y 2023) = Some 9"
proof -
  note t = area_analysis_height [where imageCollection = example_temporal_built and scale = 10
      and aoi = "[example_centroid]"
      and counts = "[\<lparr>count_year = 2016, count = 4, avgHeight = 30, avgFloors = 10, presence = Some 1\<rparr>,
          \<lparr>count_year = 2017, count = 4, avgHeight = 30, avgFloors = 10, presence = Some 1\<rparr>,
          \<lparr>count_year = 2018, count = 4, avgHeight = 30, avgFloors = 10, presence = Some 1\<rparr>,
          \<lparr>count_year = 2019, count = 4, avgHeight = 30, avgFloors = 10, presence = Some 1\<rparr>,
          \<lparr>count_year = 2020, count = 4, avgHeight = 30, avgFloors = 10, presence = Some 1\<rparr>,
          \<lparr>count_year = 2021, count = 4, avgHeight = 30, avgFloors = 10, presence = Some 1\<rparr>,
          \<lparr>count_year = 2022, count = 4, avgHeight = 30, avgFloors = 10, presence = Some 1\<rparr>,
          \<lparr>count_year = 2023, count = 4, avgHeight = 90, avgFloors = 30, presence = Some 1\<rparr>]"
      and year = 2023 and m = "mosaic [bands (example_scene 1688108400 (Some 9))]"
      and r = "\<lparr>count_year = 2023, count = 4, avgHeight = 90, avgFloors = 30, presence = Some 1\<rparr>"
      and p = example_centroid and w = 1 and v = 9 and c = "1 / 100" and G = box_geo
      and q = example_centroid and temporal = example_temporal and region = puneRegion
      and f = example_building and rec = example_record and y = 2023
      and img = "example_image (Some 9)"]
  have a: "analyzeMosaic 10 [example_centroid]
         (2023, mosaic [bands (example_scene 1688108400 (Some 9))])
       = Inr \<lparr>count_year = 2023, count = 4, avgHeight = 90, avgFloors = 30, presence = Some 1\<rparr>"
    using example_analyze [of 2023 1688108400 9] by simp
  have s: "sampleHeight box_geo (mosaic [bands (example_scene 1688108400 (Some 9))])
             example_centroid = Inr (Some 9)"
    using t by (simp add: example_single_mosaic example_pixels)
  from t a s example_analyzeBuildings example_get show ?thesis
    by (simp add: example_single_mosaic example_pixels example_getHeightImageForYear
        example_retained years_def)
qed

end
